theory Spec2Isabelle
  imports Main "HOL-Library.Sublist"
begin

section \<open>Python values\<close>

text \<open>
  The parser of \<^verbatim>\<open>streamlit_app.py\<close> (class \<^verbatim>\<open>BIMParser\<close>) works on what
  \<^verbatim>\<open>json.loads\<close> returns: \<^verbatim>\<open>None\<close>, booleans, integers, strings, lists and
  dicts with string keys. A Python \<^verbatim>\<open>str\<close> is a sequence of Unicode code points, so a
  string is a list of code points here; \<open>u\<close> reads an ASCII literal. A number with a
  fraction or an exponent decodes to a float; floats are outside this development.
  A dict is its list of items in insertion order (the keys of a decoded object are
  distinct).
\<close>

type_synonym pstr = "nat list"

definition u :: "string \<Rightarrow> pstr" where
  "u s = map of_char s"

datatype json =
    JNull
  | JBool bool
  | JInt int
  | JStr pstr
  | JList "json list"
  | JDict "(pstr \<times> json) list"

text \<open>
  An operation applied to a value of the wrong dynamic type raises. The exceptions
  the parser can meet, as values; \<open>KeyError\<close> carries the missing key. \<open>OutputError\<close>
  stands for what \<^verbatim>\<open>print\<close> raises when the standard output does not take the text (a
  \<^verbatim>\<open>UnicodeEncodeError\<close> for a text its encoding cannot write, an \<^verbatim>\<open>OSError\<close> for a
  closed pipe); like the others it is an \<^verbatim>\<open>Exception\<close>.
\<close>

datatype exn = AttributeError | TypeError | KeyError pstr | OutputError

definition rbind :: "exn + 'a \<Rightarrow> ('a \<Rightarrow> exn + 'b) \<Rightarrow> exn + 'b" where
  "rbind m f = (case m of Inl e \<Rightarrow> Inl e | Inr x \<Rightarrow> f x)"

fun rmap :: "('a \<Rightarrow> exn + 'b) \<Rightarrow> 'a list \<Rightarrow> exn + 'b list" where
  "rmap f [] = Inr []"
| "rmap f (x # xs) =
     (case f x of Inl e \<Rightarrow> Inl e
      | Inr y \<Rightarrow> (case rmap f xs of Inl e \<Rightarrow> Inl e | Inr ys \<Rightarrow> Inr (y # ys)))"

fun is_substr :: "pstr \<Rightarrow> pstr \<Rightarrow> bool" where
  "is_substr k [] = (k = [])"
| "is_substr k (c # cs) = (prefix k (c # cs) \<or> is_substr k cs)"

text \<open>\<^verbatim>\<open>k in x\<close> for a string \<open>k\<close>: a key of a dict, an element of a list, a substring of
  a string; anything else is not iterable.\<close>

fun py_contains :: "pstr \<Rightarrow> json \<Rightarrow> exn + bool" where
  "py_contains k (JDict kv) = Inr (k \<in> set (map fst kv))"
| "py_contains k (JList xs) = Inr (JStr k \<in> set xs)"
| "py_contains k (JStr s) = Inr (is_substr k s)"
| "py_contains k _ = Inl TypeError"

text \<open>\<^verbatim>\<open>x[k]\<close> for a string \<open>k\<close>: lists and strings take integer indices only.\<close>

fun py_getitem :: "json \<Rightarrow> pstr \<Rightarrow> exn + json" where
  "py_getitem (JDict kv) k = (case map_of kv k of Some v \<Rightarrow> Inr v | None \<Rightarrow> Inl (KeyError k))"
| "py_getitem _ k = Inl TypeError"

text \<open>\<^verbatim>\<open>x.get(k, d)\<close>: only a dict has the method.\<close>

fun py_get :: "json \<Rightarrow> pstr \<Rightarrow> json \<Rightarrow> exn + json" where
  "py_get (JDict kv) k d = Inr (case map_of kv k of Some v \<Rightarrow> v | None \<Rightarrow> d)"
| "py_get _ k d = Inl AttributeError"

fun py_truth :: "json \<Rightarrow> bool" where
  "py_truth JNull = False"
| "py_truth (JBool b) = b"
| "py_truth (JInt i) = (i \<noteq> 0)"
| "py_truth (JStr s) = (s \<noteq> [])"
| "py_truth (JList xs) = (xs \<noteq> [])"
| "py_truth (JDict kv) = (kv \<noteq> [])"

text \<open>\<^verbatim>\<open>for x in v\<close>: the elements of a list, the keys of a dict, the characters of a
  string.\<close>

fun py_iter :: "json \<Rightarrow> exn + json list" where
  "py_iter (JList xs) = Inr xs"
| "py_iter (JDict kv) = Inr (map (\<lambda>p. JStr (fst p)) kv)"
| "py_iter (JStr s) = Inr (map (\<lambda>c. JStr [c]) s)"
| "py_iter _ = Inl TypeError"

fun py_len :: "json \<Rightarrow> exn + nat" where
  "py_len (JList xs) = Inr (length xs)"
| "py_len (JDict kv) = Inr (length kv)"
| "py_len (JStr s) = Inr (length s)"
| "py_len _ = Inl TypeError"

fun is_list :: "json \<Rightarrow> bool" where
  "is_list (JList xs) = True"
| "is_list _ = False"

text \<open>\<^verbatim>\<open>sep.join(xs)\<close> for a list \<open>xs\<close>: every element must be a string.\<close>

fun join_strs :: "pstr \<Rightarrow> pstr list \<Rightarrow> pstr" where
  "join_strs sep [] = []"
| "join_strs sep [x] = x"
| "join_strs sep (x # y # ys) = x @ sep @ join_strs sep (y # ys)"

fun as_str :: "json \<Rightarrow> exn + pstr" where
  "as_str (JStr s) = Inr s"
| "as_str _ = Inl TypeError"

definition py_join :: "pstr \<Rightarrow> json list \<Rightarrow> exn + pstr" where
  "py_join sep xs = rbind (rmap as_str xs) (\<lambda>ss. Inr (join_strs sep ss))"

text \<open>
  \<^verbatim>\<open>a == b\<close> on decoded values: \<^verbatim>\<open>True == 1\<close> and \<^verbatim>\<open>False == 0\<close> hold, lists compare
  element by element, dicts compare as mappings whatever the order of their items.
\<close>

fun py_eq :: "json \<Rightarrow> json \<Rightarrow> bool" where
  "py_eq JNull b = (b = JNull)"
| "py_eq (JBool x) b =
     (case b of JBool y \<Rightarrow> x = y | JInt j \<Rightarrow> (if x then 1 else 0) = j | _ \<Rightarrow> False)"
| "py_eq (JInt i) b =
     (case b of JInt j \<Rightarrow> i = j | JBool y \<Rightarrow> i = (if y then 1 else 0) | _ \<Rightarrow> False)"
| "py_eq (JStr s) b = (b = JStr s)"
| "py_eq (JList xs) b = (case b of JList ys \<Rightarrow> list_all2 py_eq xs ys | _ \<Rightarrow> False)"
| "py_eq (JDict kv) b =
     (case b of
        JDict kw \<Rightarrow>
          length kv = length kw \<and>
          list_all (\<lambda>p. case map_of kw (fst p) of None \<Rightarrow> False | Some w \<Rightarrow> py_eq (snd p) w) kv
      | _ \<Rightarrow> False)"

text \<open>A list or a dict cannot be a dict key: \<^verbatim>\<open>d[k] = v\<close> raises \<open>TypeError\<close> for it.\<close>

fun hashable :: "json \<Rightarrow> bool" where
  "hashable (JList xs) = False"
| "hashable (JDict kv) = False"
| "hashable _ = True"

text \<open>
  A dict whose keys are decoded values is the list of its assignments, the latest
  first: a lookup takes the latest assignment to an equal key.
\<close>

type_synonym 'v pydict = "(json \<times> 'v) list"

definition dict_set :: "'v pydict \<Rightarrow> json \<Rightarrow> 'v \<Rightarrow> exn + 'v pydict" where
  "dict_set d k v = (if hashable k then Inr ((k, v) # d) else Inl TypeError)"

definition dict_lookup :: "'v pydict \<Rightarrow> json \<Rightarrow> 'v \<Rightarrow> 'v" where
  "dict_lookup d k dflt = (case find (\<lambda>p. py_eq (fst p) k) d of Some p \<Rightarrow> snd p | None \<Rightarrow> dflt)"

definition dict_get :: "'v pydict \<Rightarrow> json \<Rightarrow> 'v \<Rightarrow> exn + 'v" where
  "dict_get d k dflt = (if hashable k then Inr (dict_lookup d k dflt) else Inl TypeError)"

section \<open>Regular expressions\<close>

text \<open>
  The patterns given to \<^verbatim>\<open>re.search\<close> and \<^verbatim>\<open>re.findall\<close> use literals, character
  classes, concatenation, alternation, greedy repetition and capturing groups. A
  backtracking matcher tries its alternatives in a fixed order and returns the first
  that lets the whole pattern match; \<open>rx_match\<close> returns all of them in that order, each
  as the rest of the text with the groups captured so far, so that the head of the list
  is the match \<^verbatim>\<open>re\<close> reports. No repeated subpattern of the parser matches the empty
  string.
\<close>

datatype rx =
    Lit pstr
  | Ch "nat \<Rightarrow> bool"
  | Cat rx rx
  | Alt rx rx
  | Star rx
  | Grp nat rx

type_synonym rx_state = "pstr \<times> (nat \<times> pstr) list"

fun rx_match :: "rx \<Rightarrow> rx_state \<Rightarrow> rx_state list" where
  "rx_match (Lit l) (s, c) = (if prefix l s then [(drop (length l) s, c)] else [])"
| "rx_match (Ch p) (s, c) = (case s of [] \<Rightarrow> [] | x # xs \<Rightarrow> if p x then [(xs, c)] else [])"
| "rx_match (Cat a b) (s, c) = concat (map (rx_match b) (rx_match a (s, c)))"
| "rx_match (Alt a b) (s, c) = rx_match a (s, c) @ rx_match b (s, c)"
| "rx_match (Star a) (s, c) =
     concat (map (\<lambda>st. if length (fst st) < length s then rx_match (Star a) st else [])
                 (rx_match a (s, c)))
     @ [(s, c)]"
| "rx_match (Grp n a) (s, c) =
     map (\<lambda>st. (fst st, (n, take (length s - length (fst st)) s) # snd st)) (rx_match a (s, c))"

definition Plus :: "rx \<Rightarrow> rx" where
  "Plus a = Cat a (Star a)"

text \<open>The text of group \<open>n\<close>; a group that took no part in the match reads as the empty
  string, as in the tuples of \<^verbatim>\<open>re.findall\<close>.\<close>

definition group :: "(nat \<times> pstr) list \<Rightarrow> nat \<Rightarrow> pstr" where
  "group c n = (case map_of c n of Some t \<Rightarrow> t | None \<Rightarrow> [])"

text \<open>\<^verbatim>\<open>re.search\<close>: the match at the leftmost position that has one; the result is the
  captured groups and the text after the match.\<close>

fun rx_search :: "rx \<Rightarrow> pstr \<Rightarrow> ((nat \<times> pstr) list \<times> pstr) option" where
  "rx_search r s =
     (case rx_match r (s, []) of
        st # _ \<Rightarrow> Some (snd st, fst st)
      | [] \<Rightarrow> (case s of [] \<Rightarrow> None | x # xs \<Rightarrow> rx_search r xs))"

text \<open>\<^verbatim>\<open>re.findall\<close>: the matches from left to right, each search starting where the
  previous match ended (one character further after an empty match at the start).\<close>

function rx_findall :: "rx \<Rightarrow> pstr \<Rightarrow> (nat \<times> pstr) list list" where
  "rx_findall r s =
     (case rx_search r s of
        None \<Rightarrow> []
      | Some m \<Rightarrow>
          fst m #
          (if length (snd m) < length s then rx_findall r (snd m)
           else (case s of [] \<Rightarrow> [] | x # xs \<Rightarrow> rx_findall r xs)))"
  by pat_completeness auto
termination
  by (relation "measure (\<lambda>p. length (snd p))") auto

text \<open>The character classes of the patterns. \<^verbatim>\<open>\s\<close> on a \<^verbatim>\<open>str\<close> pattern is Unicode
  white space. With \<^verbatim>\<open>re.IGNORECASE\<close> a class of ASCII letters also takes the four
  letters whose case mapping is an ASCII letter.\<close>

definition is_space :: "nat \<Rightarrow> bool" where
  "is_space x =
     ((9 \<le> x \<and> x \<le> 13) \<or> (28 \<le> x \<and> x \<le> 32) \<or> x = 133 \<or> x = 160 \<or> x = 5760
      \<or> (8192 \<le> x \<and> x \<le> 8202) \<or> x = 8232 \<or> x = 8233 \<or> x = 8239 \<or> x = 8287
      \<or> x = 12288)"

definition is_alpha :: "nat \<Rightarrow> bool" where
  "is_alpha x = ((65 \<le> x \<and> x \<le> 90) \<or> (97 \<le> x \<and> x \<le> 122))"

definition is_digit :: "nat \<Rightarrow> bool" where
  "is_digit x = (48 \<le> x \<and> x \<le> 57)"

definition folds_to_ascii :: "nat \<Rightarrow> bool" where
  "folds_to_ascii x = (x = 304 \<or> x = 305 \<or> x = 383 \<or> x = 8490)"

definition ident_start :: "nat \<Rightarrow> bool" where
  "ident_start x = (is_alpha x \<or> x = 95)"

definition ident_char :: "nat \<Rightarrow> bool" where
  "ident_char x = (is_alpha x \<or> is_digit x \<or> x = 95)"

definition not_ch :: "nat \<Rightarrow> nat \<Rightarrow> bool" where
  "not_ch c x = (x \<noteq> c)"

definition one_of :: "nat list \<Rightarrow> nat \<Rightarrow> bool" where
  "one_of cs x = (x \<in> set cs)"

fun cats :: "rx list \<Rightarrow> rx" where
  "cats [] = Lit []"
| "cats [r] = r"
| "cats (r # rs) = Cat r (cats rs)"

section \<open>Source resolver\<close>

text \<open>The default source table name, \<^verbatim>\<open>"DAX"\<close> followed by U+521B U+5EFA, and the
  names of the system tables, \<^verbatim>\<open>"User_"\<close> followed by U+7528 U+6237 U+6743 U+9650
  U+8868.\<close>

definition dax_created :: pstr where
  "dax_created = u ''DAX'' @ [21019, 24314]"

definition system_tables :: "json list" where
  "system_tables = [JStr (u ''User_'' @ [29992, 25143, 26435, 38480, 34920])]"

text \<open>\<^verbatim>\<open>Item="([^"]+)"\<close>\<close>

definition item_pattern :: rx where
  "item_pattern = cats [Lit (u ''Item='' @ [34]), Grp 1 (Plus (Ch (not_ch 34))), Lit [34]]"

text \<open>\<^verbatim>\<open>FROM\s+([a-zA-Z_][a-zA-Z0-9_]*)\<close> with \<^verbatim>\<open>re.IGNORECASE\<close>\<close>

definition from_pattern :: rx where
  "from_pattern =
     cats [Ch (one_of [70, 102]), Ch (one_of [82, 114]), Ch (one_of [79, 111]),
           Ch (one_of [77, 109]), Plus (Ch is_space),
           Grp 1 (Cat (Ch (\<lambda>x. ident_start x \<or> folds_to_ascii x))
                      (Star (Ch (\<lambda>x. ident_char x \<or> folds_to_ascii x))))]"

text \<open>\<^verbatim>\<open>_extract_source_table\<close>\<close>

definition extract_source_table :: "json \<Rightarrow> exn + pstr" where
  "extract_source_table expression =
     (case expression of
        JList ls \<Rightarrow>
          rbind (py_join [10] ls) (\<lambda>expression_text.
            case rx_search item_pattern expression_text of
              Some m \<Rightarrow> Inr (group (fst m) 1)
            | None \<Rightarrow>
                (case rx_search from_pattern expression_text of
                   Some m \<Rightarrow> Inr (group (fst m) 1)
                 | None \<Rightarrow> Inr dax_created))
      | _ \<Rightarrow> Inr dax_created)"

text \<open>\<^verbatim>\<open>Value\.NativeQuery\(#"([^;]+);([^"]+)"\<close>\<close>

definition native_query_pattern :: rx where
  "native_query_pattern =
     cats [Lit (u ''Value.NativeQuery(#'' @ [34]), Grp 1 (Plus (Ch (not_ch 59))), Lit [59],
           Grp 2 (Plus (Ch (not_ch 34))), Lit [34]]"

text \<open>\<^verbatim>\<open>Source\s*=\s*#"([^;]+);([^"]+)"\<close>\<close>

definition source_pattern :: rx where
  "source_pattern =
     cats [Lit (u ''Source''), Star (Ch is_space), Lit (u ''=''), Star (Ch is_space),
           Lit (u ''#'' @ [34]), Grp 1 (Plus (Ch (not_ch 59))), Lit [59],
           Grp 2 (Plus (Ch (not_ch 34))), Lit [34]]"

text \<open>\<^verbatim>\<open>Schema="([^"]+)"\<close>\<close>

definition schema_pattern :: rx where
  "schema_pattern = cats [Lit (u ''Schema='' @ [34]), Grp 1 (Plus (Ch (not_ch 34))), Lit [34]]"

text \<open>\<^verbatim>\<open>_extract_connection_info\<close>: the instance address and the database name.\<close>

definition extract_connection_info :: "json \<Rightarrow> exn + pstr \<times> pstr" where
  "extract_connection_info expression =
     (case expression of
        JList ls \<Rightarrow>
          rbind (py_join [10] ls) (\<lambda>expression_text.
            case rx_search native_query_pattern expression_text of
              Some m \<Rightarrow> Inr (group (fst m) 1, group (fst m) 2)
            | None \<Rightarrow>
                (case rx_search source_pattern expression_text of
                   Some m \<Rightarrow> Inr (group (fst m) 1, group (fst m) 2)
                 | None \<Rightarrow>
                     (case rx_search schema_pattern expression_text of
                        Some m \<Rightarrow> Inr ([], group (fst m) 1)
                      | None \<Rightarrow> Inr ([], []))))
      | _ \<Rightarrow> Inr ([], []))"

text \<open>
  The test \<^verbatim>\<open>"source" in partition and "expression" in partition["source"]\<close> of the
  loops over the partitions of a table.
\<close>

definition has_expression :: "json \<Rightarrow> exn + bool" where
  "has_expression part =
     rbind (py_contains (u ''source'') part) (\<lambda>b.
       if b then rbind (py_getitem part (u ''source'')) (py_contains (u ''expression''))
       else Inr False)"

definition get_expression :: "json \<Rightarrow> exn + json" where
  "get_expression part =
     rbind (py_getitem part (u ''source'')) (\<lambda>src. py_getitem src (u ''expression''))"

text \<open>
  The loop that every pass runs over the partitions of a table: it stops at the first
  partition that has an expression (the \<^verbatim>\<open>break\<close> follows the extraction whatever it
  returned) and yields that expression.
\<close>

fun first_expression :: "json list \<Rightarrow> exn + json option" where
  "first_expression [] = Inr None"
| "first_expression (part # ps) =
     rbind (has_expression part) (\<lambda>b.
       if b then rbind (get_expression part) (\<lambda>e. Inr (Some e))
       else first_expression ps)"

text \<open>\<^verbatim>\<open>if "partitions" in table and table["partitions"]: for part in ...\<close>: the
  partitions the loop runs over.\<close>

definition partitions_of :: "json \<Rightarrow> exn + json list" where
  "partitions_of table =
     rbind (py_contains (u ''partitions'') table) (\<lambda>b.
       if b then
         rbind (py_getitem table (u ''partitions'')) (\<lambda>ps.
           if py_truth ps then py_iter ps else Inr [])
       else Inr [])"

definition source_table_of :: "json \<Rightarrow> exn + pstr" where
  "source_table_of table =
     rbind (partitions_of table) (\<lambda>ps.
       rbind (first_expression ps) (\<lambda>oe.
         case oe of None \<Rightarrow> Inr dax_created | Some e \<Rightarrow> extract_source_table e))"

section \<open>Column provenance resolver\<close>

text \<open>\<^verbatim>\<open>Table\.RenameColumns\([^,]+,\s*(\{[^}]*(?:\{[^}]*}[^}]*)*})\)\<close>\<close>

definition rename_pattern :: rx where
  "rename_pattern =
     cats [Lit (u ''Table.RenameColumns(''), Plus (Ch (not_ch 44)), Lit [44], Star (Ch is_space),
           Grp 1 (cats [Lit [123], Star (Ch (not_ch 125)),
                        Star (cats [Lit [123], Star (Ch (not_ch 125)), Lit [125],
                                    Star (Ch (not_ch 125))]),
                        Lit [125]]),
           Lit [41]]"

text \<open>\<^verbatim>\<open>\{\s*"([^"]+)"\s*,\s*"([^"]+)"\s*}\<close>\<close>

definition quoted_pair_pattern :: rx where
  "quoted_pair_pattern =
     cats [Lit [123], Star (Ch is_space), Lit [34], Grp 1 (Plus (Ch (not_ch 34))), Lit [34],
           Star (Ch is_space), Lit [44], Star (Ch is_space),
           Lit [34], Grp 2 (Plus (Ch (not_ch 34))), Lit [34], Star (Ch is_space), Lit [125]]"

text \<open>\<^verbatim>\<open>\{\s*([a-zA-Z_][a-zA-Z0-9_]*)\s*,\s*"([^"]+)"\s*}\<close>\<close>

definition bare_pair_pattern :: rx where
  "bare_pair_pattern =
     cats [Lit [123], Star (Ch is_space), Grp 1 (Cat (Ch ident_start) (Star (Ch ident_char))),
           Star (Ch is_space), Lit [44], Star (Ch is_space),
           Lit [34], Grp 2 (Plus (Ch (not_ch 34))), Lit [34], Star (Ch is_space), Lit [125]]"

text \<open>
  \<^verbatim>\<open>_extract_rename_mappings_from_m\<close>. The dict from new names to old names is the list
  of its assignments, the latest first, so that \<open>map_of\<close> reads what the dict holds; the
  pairs of every match are assigned in the order found.
\<close>

definition pairs_of :: "rx \<Rightarrow> pstr list \<Rightarrow> (pstr \<times> pstr) list" where
  "pairs_of pat matches =
     rev (concat (map (\<lambda>m. map (\<lambda>c. (group c 2, group c 1)) (rx_findall pat m)) matches))"

definition extract_rename_mappings_from_m :: "json \<Rightarrow> exn + (pstr \<times> pstr) list" where
  "extract_rename_mappings_from_m expression =
     rbind (case expression of
              JList ls \<Rightarrow> py_join [32] ls
            | JStr s \<Rightarrow> Inr s
            | _ \<Rightarrow> Inl TypeError) (\<lambda>text.
       let matches = map (\<lambda>c. group c 1) (rx_findall rename_pattern text);
           rename_mappings = pairs_of quoted_pair_pattern matches
       in if rename_mappings = [] then Inr (pairs_of bare_pair_pattern matches)
          else Inr rename_mappings)"

text \<open>The guard \<^verbatim>\<open>"model" not in raw_data or "tables" not in raw_data["model"]\<close> that
  opens the passes, and the tables they read when it lets them through.\<close>

definition model_tables :: "json \<Rightarrow> exn + json option" where
  "model_tables raw_data =
     rbind (py_contains (u ''model'') raw_data) (\<lambda>b.
       if \<not> b then Inr None
       else rbind (py_getitem raw_data (u ''model'')) (\<lambda>model.
         rbind (py_contains (u ''tables'') model) (\<lambda>b'.
           if \<not> b' then Inr None
           else rbind (py_getitem model (u ''tables'')) (\<lambda>tables. Inr (Some tables)))))"

text \<open>The first table whose name equals \<open>table_name\<close>.\<close>

fun find_table :: "json list \<Rightarrow> json \<Rightarrow> exn + json option" where
  "find_table [] table_name = Inr None"
| "find_table (table # ts) table_name =
     rbind (py_get table (u ''name'') (JStr [])) (\<lambda>n.
       if py_eq n table_name then Inr (Some table) else find_table ts table_name)"

text \<open>The loop over the partitions of the table found: the first partition whose
  mappings have the column name as a new name decides.\<close>

fun mapped_source :: "json list \<Rightarrow> json \<Rightarrow> exn + json" where
  "mapped_source [] column_name = Inr column_name"
| "mapped_source (part # ps) column_name =
     rbind (has_expression part) (\<lambda>b.
       if b then
         rbind (get_expression part) (\<lambda>expression.
           rbind (extract_rename_mappings_from_m expression) (\<lambda>rename_mappings.
             case (case column_name of JStr c \<Rightarrow> map_of rename_mappings c | _ \<Rightarrow> None) of
               Some source_name \<Rightarrow> Inr (JStr source_name)
             | None \<Rightarrow> mapped_source ps column_name))
       else mapped_source ps column_name)"

text \<open>\<^verbatim>\<open>_extract_column_source_from_m_function\<close>\<close>

definition extract_column_source_from_m_function :: "json \<Rightarrow> json \<Rightarrow> json \<Rightarrow> exn + json" where
  "extract_column_source_from_m_function raw_data table_name column_name =
     rbind (model_tables raw_data) (\<lambda>ot.
       case ot of
         None \<Rightarrow> Inr column_name
       | Some tables \<Rightarrow>
           rbind (py_iter tables) (\<lambda>ts.
             rbind (find_table ts table_name) (\<lambda>target.
               case target of
                 None \<Rightarrow> Inr column_name
               | Some target_table \<Rightarrow>
                   if \<not> py_truth target_table then Inr column_name
                   else rbind (py_contains (u ''partitions'') target_table) (\<lambda>b.
                     if \<not> b then Inr column_name
                     else rbind (py_getitem target_table (u ''partitions'')) (\<lambda>pv.
                       rbind (py_iter pv) (\<lambda>ps. mapped_source ps column_name))))))"


section \<open>Table and column inventory\<close>

text \<open>The records of \<^verbatim>\<open>tables_info\<close> and \<^verbatim>\<open>columns_info\<close>. Their keys in the source
  are Chinese labels; the fields are named after the variables they are set from.\<close>

record table_info =
  tbl_name :: json
  tbl_source_table :: pstr
  tbl_partition_count :: nat

record column_info =
  col_table_name :: json
  col_source_table :: pstr
  col_column_name :: json
  col_source_column :: json
  col_data_type :: json

definition partition_count_of :: "json \<Rightarrow> exn + nat" where
  "partition_count_of table =
     rbind (py_contains (u ''partitions'') table) (\<lambda>b.
       if b then rbind (py_getitem table (u ''partitions'')) py_len else Inr 0)"

text \<open>One turn of the loop of \<^verbatim>\<open>_parse_tables\<close>: the records it appends.\<close>

definition table_rows :: "json \<Rightarrow> exn + table_info list" where
  "table_rows table =
     rbind (py_get table (u ''name'') (JStr [])) (\<lambda>table_name.
       if list_ex (py_eq table_name) system_tables then Inr []
       else rbind (source_table_of table) (\<lambda>source_table.
         rbind (partition_count_of table) (\<lambda>partition_count.
           Inr [\<lparr>tbl_name = table_name, tbl_source_table = source_table,
                 tbl_partition_count = partition_count\<rparr>])))"

text \<open>\<^verbatim>\<open>_parse_tables\<close>; the \<^verbatim>\<open>print\<close> before the loop takes \<^verbatim>\<open>len\<close> of the tables.\<close>

definition parse_tables :: "json \<Rightarrow> exn + table_info list" where
  "parse_tables raw_data =
     rbind (model_tables raw_data) (\<lambda>ot.
       case ot of
         None \<Rightarrow> Inr []
       | Some tables \<Rightarrow>
           rbind (py_len tables) (\<lambda>n.
             rbind (py_iter tables) (\<lambda>ts.
               rbind (rmap table_rows ts) (\<lambda>rows. Inr (concat rows)))))"

text \<open>The source column of a column: the name the rename mappings give, else the
  declared \<^verbatim>\<open>sourceColumn\<close>, else the name of the column.\<close>

definition column_row :: "json \<Rightarrow> json \<Rightarrow> pstr \<Rightarrow> json \<Rightarrow> exn + column_info" where
  "column_row raw_data table_name source_table column =
     rbind (py_get column (u ''name'') (JStr [])) (\<lambda>column_name.
       rbind (py_get column (u ''dataType'') (JStr [])) (\<lambda>data_type.
         rbind (extract_column_source_from_m_function raw_data table_name column_name) (\<lambda>m_source.
           rbind (if py_eq m_source column_name then py_get column (u ''sourceColumn'') (JStr [])
                  else Inr m_source) (\<lambda>source_column.
             Inr \<lparr>col_table_name = table_name, col_source_table = source_table,
                  col_column_name = column_name,
                  col_source_column = (if \<not> py_truth source_column then column_name
                                       else source_column),
                  col_data_type = data_type\<rparr>))))"

definition columns_of :: "json \<Rightarrow> exn + json list" where
  "columns_of table =
     rbind (py_contains (u ''columns'') table) (\<lambda>b.
       if b then rbind (py_getitem table (u ''columns'')) py_iter else Inr [])"

definition column_rows :: "json \<Rightarrow> json \<Rightarrow> exn + column_info list" where
  "column_rows raw_data table =
     rbind (py_get table (u ''name'') (JStr [])) (\<lambda>table_name.
       rbind (source_table_of table) (\<lambda>source_table.
         rbind (columns_of table) (\<lambda>cs.
           rmap (column_row raw_data table_name source_table) cs)))"

text \<open>\<^verbatim>\<open>_parse_columns\<close>\<close>

definition parse_columns :: "json \<Rightarrow> exn + column_info list" where
  "parse_columns raw_data =
     rbind (model_tables raw_data) (\<lambda>ot.
       case ot of
         None \<Rightarrow> Inr []
       | Some tables \<Rightarrow>
           rbind (py_iter tables) (\<lambda>ts.
             rbind (rmap (column_rows raw_data) ts) (\<lambda>rows. Inr (concat rows))))"

section \<open>Measure analyzer\<close>

text \<open>
  \<^verbatim>\<open>str(v)\<close>, which an f-string applies to what it formats, is the string itself for a
  string. For any other value it is the text Python prints for it, taken as the
  parameter \<open>repr\<close>.
\<close>

definition py_str :: "(json \<Rightarrow> pstr) \<Rightarrow> json \<Rightarrow> pstr" where
  "py_str repr v = (case v of JStr s \<Rightarrow> s | _ \<Rightarrow> repr v)"

fun rfold :: "('a \<Rightarrow> 's \<Rightarrow> exn + 's) \<Rightarrow> 'a list \<Rightarrow> 's \<Rightarrow> exn + 's" where
  "rfold f [] st = Inr st"
| "rfold f (x # xs) st = (case f x st of Inl e \<Rightarrow> Inl e | Inr st' \<Rightarrow> rfold f xs st')"

text \<open>
  A Python \<^verbatim>\<open>set\<close> of strings is the list of its elements without repetition, in the
  order they were first added. Python fixes no order for the elements of a set, so the
  order of the lines rendered from one carries no meaning.
\<close>

fun set_update :: "pstr list \<Rightarrow> pstr list \<Rightarrow> pstr list" where
  "set_update acc [] = acc"
| "set_update acc (x # xs) = set_update (if x \<in> set acc then acc else acc @ [x]) xs"

text \<open>\<^verbatim>\<open>'([^']+)'\<close>\<close>

definition table_pattern :: rx where
  "table_pattern = cats [Lit [39], Grp 1 (Plus (Ch (not_ch 39))), Lit [39]]"

text \<open>\<^verbatim>\<open>_extract_involved_tables\<close>\<close>

definition extract_involved_tables :: "pstr \<Rightarrow> pstr list" where
  "extract_involved_tables expression =
     set_update [] (map (\<lambda>c. group c 1) (rx_findall table_pattern expression))"

text \<open>\<^verbatim>\<open>'[^']+'\['([^']+)'\]|'[^']+'\[([^\]]+)\]\<close>\<close>

definition column_pattern :: rx where
  "column_pattern =
     Alt (cats [Lit [39], Plus (Ch (not_ch 39)), Lit [39, 91, 39], Grp 1 (Plus (Ch (not_ch 39))),
                Lit [39, 93]])
         (cats [Lit [39], Plus (Ch (not_ch 39)), Lit [39, 91], Grp 2 (Plus (Ch (not_ch 93))),
                Lit [93]])"

text \<open>\<^verbatim>\<open>_extract_involved_columns\<close>: of each match, the groups that are not empty.\<close>

definition extract_involved_columns :: "pstr \<Rightarrow> pstr list" where
  "extract_involved_columns expression =
     set_update []
       (concat (map (\<lambda>c. filter (\<lambda>m. m \<noteq> []) [group c 1, group c 2])
                    (rx_findall column_pattern expression)))"

text \<open>\<^verbatim>\<open>\[([^\]]+)\]\<close>\<close>

definition measure_pattern :: rx where
  "measure_pattern = cats [Lit [91], Grp 1 (Plus (Ch (not_ch 93))), Lit [93]]"

definition bracket_tokens :: "pstr \<Rightarrow> pstr list" where
  "bracket_tokens expression = map (\<lambda>c. group c 1) (rx_findall measure_pattern expression)"

text \<open>The records of \<^verbatim>\<open>all_measures\<close>.\<close>

record measure_decl =
  md_name :: json
  md_expression :: pstr
  md_format_string :: json
  md_display_folder :: json
  md_table_name :: json

text \<open>\<^verbatim>\<open>expression.replace('\\"', '"')\<close>: a backslash before a double quote goes.\<close>

fun unescape_quotes :: "pstr \<Rightarrow> pstr" where
  "unescape_quotes [] = []"
| "unescape_quotes [c] = [c]"
| "unescape_quotes (c # d # cs) =
     (if c = 92 \<and> d = 34 then 34 # unescape_quotes cs else c # unescape_quotes (d # cs))"

definition replace_quotes :: "json \<Rightarrow> exn + pstr" where
  "replace_quotes expression =
     (case expression of JStr s \<Rightarrow> Inr (unescape_quotes s) | _ \<Rightarrow> Inl AttributeError)"

definition measure_decl_of :: "json \<Rightarrow> json \<Rightarrow> exn + measure_decl" where
  "measure_decl_of table meas =
     rbind (py_get meas (u ''name'') (JStr [])) (\<lambda>measure_name.
       rbind (py_get meas (u ''expression'') (JStr [])) (\<lambda>expression.
         rbind (case expression of JList ls \<Rightarrow> rbind (py_join [32] ls) (\<lambda>s. Inr (JStr s))
                | _ \<Rightarrow> Inr expression) (\<lambda>expression'.
           rbind (py_get meas (u ''formatString'') (JStr [])) (\<lambda>format_string.
             rbind (py_get meas (u ''displayFolder'') (JStr [])) (\<lambda>display_folder.
               rbind (py_get table (u ''name'') (JStr [])) (\<lambda>table_name.
                 rbind (replace_quotes expression') (\<lambda>text.
                   Inr \<lparr>md_name = measure_name, md_expression = text,
                        md_format_string = format_string,
                        md_display_folder = display_folder,
                        md_table_name = table_name\<rparr>)))))))"

definition measures_of :: "json \<Rightarrow> exn + json list" where
  "measures_of table =
     rbind (py_contains (u ''measures'') table) (\<lambda>b.
       if b then rbind (py_getitem table (u ''measures'')) py_iter else Inr [])"

definition collect_measures :: "json list \<Rightarrow> exn + measure_decl list" where
  "collect_measures ts =
     rbind (rmap (\<lambda>table. rbind (measures_of table) (rmap (measure_decl_of table))) ts)
       (\<lambda>mss. Inr (concat mss))"

text \<open>
  \<^verbatim>\<open>measure_lookup\<close>, for the strings looked up in it: the expression of the measure
  that the dict holds under a name, the latest declaration first.
\<close>

fun named_expressions :: "measure_decl list \<Rightarrow> (pstr \<times> pstr) list" where
  "named_expressions [] = []"
| "named_expressions (m # ms) =
     (case md_name m of
        JStr n \<Rightarrow> named_expressions ms @ [(n, md_expression m)]
      | _ \<Rightarrow> named_expressions ms)"

text \<open>
  The closure \<^verbatim>\<open>resolve_measure_references\<close>. It runs over the bracketed tokens of an
  expression and, at a token that names a measure not visited yet, adds the name to
  \<^verbatim>\<open>visited_measures\<close>, merges the tables and columns of that measure and calls itself
  on the expression of that measure before it goes on with the next token. The tokens
  still to come are kept in one work list: those of the callee first, then what is left
  of the caller. The state is \<^verbatim>\<open>visited_measures\<close>, in the order the names were added,
  \<^verbatim>\<open>all_tables\<close> and \<^verbatim>\<open>all_columns\<close>. The depth of the Python call stack is not bounded
  here.
\<close>

type_synonym resolve_state = "pstr list \<times> pstr list \<times> pstr list"

function resolve_measure_references ::
  "(pstr \<times> pstr) list \<Rightarrow> pstr list \<Rightarrow> resolve_state \<Rightarrow> resolve_state" where
  "resolve_measure_references lk [] st = st"
| "resolve_measure_references lk (match # rest) (visited, all_tables, all_columns) =
     (case map_of lk match of
        None \<Rightarrow> resolve_measure_references lk rest (visited, all_tables, all_columns)
      | Some e \<Rightarrow>
          if match \<in> set visited
          then resolve_measure_references lk rest (visited, all_tables, all_columns)
          else resolve_measure_references lk (bracket_tokens e @ rest)
                 (visited @ [match],
                  set_update all_tables (extract_involved_tables e),
                  set_update all_columns (extract_involved_columns e)))"
  by pat_completeness auto

lemma unvisited_decreases:
  assumes "map_of lk m = Some e" and "m \<notin> set visited"
  shows "card (set (map fst lk) - set (visited @ [m])) < card (set (map fst lk) - set visited)"
proof (rule psubset_card_mono)
  show "finite (set (map fst lk) - set visited)"
    by simp
  have "m \<in> set (map fst lk)"
    using assms(1) by (metis map_of_eq_None_iff option.distinct(1) set_map)
  with assms(2) show "set (map fst lk) - set (visited @ [m]) \<subset> set (map fst lk) - set visited"
    by auto
qed

termination resolve_measure_references
proof (relation "inv_image (less_than <*lex*> less_than)
    (\<lambda>(lk, todo, visited, ts, cs). (card (set (map fst lk) - set visited), length todo))",
    goal_cases)
  case 1
  show ?case by (intro wf_inv_image wf_lex_prod wf_less_than)
next
  case (2 lk match rest visited all_tables all_columns)
  show ?case by simp
next
  case (3 lk match rest visited all_tables all_columns e)
  show ?case by simp
next
  case (4 lk match rest visited all_tables all_columns e)
  then show ?case using unvisited_decreases [of lk match e visited] by simp
qed

text \<open>The tables and columns a measure involves: its own and those of every measure the
  closure visits from its expression.\<close>

definition involved_of :: "(pstr \<times> pstr) list \<Rightarrow> pstr \<Rightarrow> resolve_state" where
  "involved_of lk expression =
     resolve_measure_references lk (bracket_tokens expression)
       ([], extract_involved_tables expression, extract_involved_columns expression)"

text \<open>The labels \<^verbatim>\<open>" (XX: "\<close> of the rendered lines, where XX is U+6E90 U+8868 (source
  table) or U+6E90 U+5217 (source column).\<close>

definition source_table_label :: pstr where
  "source_table_label = [32, 40, 28304, 34920, 58, 32]"

definition source_column_label :: pstr where
  "source_column_label = [32, 40, 28304, 21015, 58, 32]"

definition formatted_tables :: "pstr pydict \<Rightarrow> pstr list \<Rightarrow> pstr list" where
  "formatted_tables table_source_lookup all_tables =
     map (\<lambda>table_involved.
            table_involved @ source_table_label
            @ dict_lookup table_source_lookup (JStr table_involved) dax_created @ [41])
         all_tables"

text \<open>The pattern \<^verbatim>\<open>'T'\[([^\]]+)\]\<close> for the escaped table name \<open>T\<close>.\<close>

definition column_of_table_pattern :: "pstr \<Rightarrow> rx" where
  "column_of_table_pattern table_involved =
     cats [Lit ([39] @ table_involved @ [39, 91]), Grp 1 (Plus (Ch (not_ch 93))), Lit [93]]"

text \<open>The columns are rendered table by table; a column goes under a table when the
  expression of the measure itself qualifies it by that table.\<close>

definition formatted_columns ::
  "(json \<Rightarrow> pstr) \<Rightarrow> (pstr \<times> json) list \<Rightarrow> pstr \<Rightarrow> pstr list \<Rightarrow> pstr list \<Rightarrow> pstr list" where
  "formatted_columns repr column_source_lookup expression all_tables all_columns =
     concat (map (\<lambda>table_involved.
       let column_matches =
             map (\<lambda>c. group c 1)
                 (rx_findall (column_of_table_pattern table_involved) expression);
           table_related_columns = filter (\<lambda>column_involved. column_involved \<in> set column_matches)
                                          all_columns
       in map (\<lambda>column_involved.
                 column_involved @ source_column_label
                 @ py_str repr (case map_of column_source_lookup
                                       (table_involved @ [46] @ column_involved) of
                                  Some source_column \<Rightarrow> source_column
                                | None \<Rightarrow> JStr column_involved)
                 @ [41])
              table_related_columns)
       all_tables)"

text \<open>The records of \<^verbatim>\<open>measures_info\<close> as \<^verbatim>\<open>_parse_measures\<close> appends them.\<close>

record measure_info =
  mi_name :: json
  mi_expression :: pstr
  mi_format_string :: json
  mi_display_folder :: json
  mi_involved_tables :: pstr
  mi_involved_columns :: pstr

definition measure_row ::
  "(json \<Rightarrow> pstr) \<Rightarrow> pstr pydict \<Rightarrow> (pstr \<times> json) list \<Rightarrow> (pstr \<times> pstr) list
   \<Rightarrow> measure_decl \<Rightarrow> measure_info" where
  "measure_row repr table_source_lookup column_source_lookup lk m =
     (case involved_of lk (md_expression m) of
        (visited, all_tables, all_columns) \<Rightarrow>
          \<lparr>mi_name = md_name m, mi_expression = md_expression m,
           mi_format_string = md_format_string m,
           mi_display_folder = md_display_folder m,
           mi_involved_tables = join_strs [10] (formatted_tables table_source_lookup all_tables),
           mi_involved_columns =
             join_strs [10] (formatted_columns repr column_source_lookup (md_expression m)
                               all_tables all_columns)\<rparr>)"

text \<open>The two lookups. A key of \<^verbatim>\<open>column_source_lookup\<close> is the text
  \<^verbatim>\<open>f"{table_name}.{column_name}"\<close>; the latest assignment comes first.\<close>

definition column_lookup_step ::
  "(json \<Rightarrow> pstr) \<Rightarrow> json \<Rightarrow> json \<Rightarrow> json \<Rightarrow> (pstr \<times> json) list
   \<Rightarrow> exn + (pstr \<times> json) list" where
  "column_lookup_step repr raw_data table_name column column_source_lookup =
     rbind (py_get column (u ''name'') (JStr [])) (\<lambda>column_name.
       rbind (py_get column (u ''sourceColumn'') column_name) (\<lambda>source_column.
         rbind (extract_column_source_from_m_function raw_data table_name column_name)
           (\<lambda>m_source_column.
             Inr ((py_str repr table_name @ [46] @ py_str repr column_name,
                   if \<not> py_eq m_source_column column_name then m_source_column
                   else source_column)
                  # column_source_lookup))))"

definition table_lookup_step :: "json \<Rightarrow> pstr pydict \<Rightarrow> exn + pstr pydict" where
  "table_lookup_step table table_source_lookup =
     rbind (py_get table (u ''name'') (JStr [])) (\<lambda>table_name.
       rbind (source_table_of table) (\<lambda>source_table.
         dict_set table_source_lookup table_name source_table))"

definition columns_lookup_step ::
  "(json \<Rightarrow> pstr) \<Rightarrow> json \<Rightarrow> json \<Rightarrow> (pstr \<times> json) list \<Rightarrow> exn + (pstr \<times> json) list" where
  "columns_lookup_step repr raw_data table column_source_lookup =
     rbind (py_get table (u ''name'') (JStr [])) (\<lambda>table_name.
       rbind (columns_of table) (\<lambda>cs.
         rfold (column_lookup_step repr raw_data table_name) cs column_source_lookup))"

text \<open>In \<^verbatim>\<open>_parse_measures\<close> one loop over the tables fills both lookups.\<close>

definition lookups_step ::
  "(json \<Rightarrow> pstr) \<Rightarrow> json \<Rightarrow> json \<Rightarrow> pstr pydict \<times> (pstr \<times> json) list
   \<Rightarrow> exn + pstr pydict \<times> (pstr \<times> json) list" where
  "lookups_step repr raw_data table lookups =
     rbind (table_lookup_step table (fst lookups)) (\<lambda>table_source_lookup.
       rbind (columns_lookup_step repr raw_data table (snd lookups)) (\<lambda>column_source_lookup.
         Inr (table_source_lookup, column_source_lookup)))"

text \<open>\<^verbatim>\<open>_parse_measures\<close>. Building \<^verbatim>\<open>measure_lookup\<close> raises when the name of a measure
  cannot be a key.\<close>

definition parse_measures :: "(json \<Rightarrow> pstr) \<Rightarrow> json \<Rightarrow> exn + measure_info list" where
  "parse_measures repr raw_data =
     rbind (model_tables raw_data) (\<lambda>ot.
       case ot of
         None \<Rightarrow> Inr []
       | Some tables \<Rightarrow>
           rbind (py_iter tables) (\<lambda>ts.
             rbind (rfold (lookups_step repr raw_data) ts ([], [])) (\<lambda>lookups.
               rbind (collect_measures ts) (\<lambda>all_measures.
                 if list_all (\<lambda>m. hashable (md_name m)) all_measures
                 then Inr (map (measure_row repr (fst lookups) (snd lookups)
                                  (named_expressions all_measures))
                               all_measures)
                 else Inl TypeError))))"

text \<open>
  \<^verbatim>\<open>_resolve_all_measure_references\<close> gives every record of \<^verbatim>\<open>measures_info\<close> one more
  entry: the names of the measures its expression refers to, one to a line.
\<close>

record measure_ref = measure_info +
  mi_references :: pstr

fun measure_names :: "measure_info list \<Rightarrow> pstr list" where
  "measure_names [] = []"
| "measure_names (m # ms) =
     (case mi_name m of JStr n \<Rightarrow> n # measure_names ms | _ \<Rightarrow> measure_names ms)"

fun collect_references :: "pstr list \<Rightarrow> pstr list \<Rightarrow> pstr list \<Rightarrow> pstr list" where
  "collect_references names [] referenced_measures = referenced_measures"
| "collect_references names (match # matches) referenced_measures =
     collect_references names matches
       (if match \<in> set names \<and> match \<notin> set referenced_measures
        then referenced_measures @ [match] else referenced_measures)"

definition referenced_measures_of :: "pstr list \<Rightarrow> pstr \<Rightarrow> pstr list" where
  "referenced_measures_of names expression =
     collect_references names (bracket_tokens expression) []"

definition resolve_all_measure_references :: "measure_info list \<Rightarrow> exn + measure_ref list" where
  "resolve_all_measure_references measures_info =
     (if list_all (\<lambda>m. hashable (mi_name m)) measures_info
      then Inr (map (\<lambda>m. \<lparr>mi_name = mi_name m, mi_expression = mi_expression m,
                             mi_format_string = mi_format_string m,
                             mi_display_folder = mi_display_folder m,
                             mi_involved_tables = mi_involved_tables m,
                             mi_involved_columns = mi_involved_columns m,
                             mi_references =
                               join_strs [10]
                                 (referenced_measures_of (measure_names measures_info)
                                    (mi_expression m))\<rparr>)
                    measures_info)
      else Inl TypeError)"

section \<open>Relationship resolver\<close>

text \<open>The records of \<^verbatim>\<open>relationships_info\<close>; every field is a text.\<close>

record relationship_info =
  rel_from_table :: pstr
  rel_from_column :: pstr
  rel_to_table :: pstr
  rel_to_column :: pstr
  rel_cardinality :: pstr
  rel_cross_filtering :: pstr
  rel_is_active :: pstr

text \<open>The labels of the relationship records: many-to-many (U+591A U+5BF9 U+591A),
  one-to-many (U+4E00 U+5BF9 U+591A), both directions (U+53CC U+5411), single direction
  (U+5355 U+5411), not enabled (U+672A U+542F U+7528) and enabled (U+542F U+7528).\<close>

definition many_to_many :: pstr where "many_to_many = [22810, 23545, 22810]"
definition one_to_many :: pstr where "one_to_many = [19968, 23545, 22810]"
definition both_directions :: pstr where "both_directions = [21452, 21521]"
definition single_direction :: pstr where "single_direction = [21333, 21521]"
definition not_enabled :: pstr where "not_enabled = [26410, 21551, 29992]"
definition enabled :: pstr where "enabled = [21551, 29992]"

definition relationship_row ::
  "(json \<Rightarrow> pstr) \<Rightarrow> pstr pydict \<Rightarrow> (pstr \<times> json) list \<Rightarrow> json \<Rightarrow> exn + relationship_info" where
  "relationship_row repr table_source_lookup column_source_lookup relationship =
     rbind (py_get relationship (u ''fromTable'') (JStr [])) (\<lambda>from_table.
     rbind (py_get relationship (u ''fromColumn'') (JStr [])) (\<lambda>from_column.
     rbind (py_get relationship (u ''toTable'') (JStr [])) (\<lambda>to_table.
     rbind (py_get relationship (u ''toColumn'') (JStr [])) (\<lambda>to_column.
     rbind (py_get relationship (u ''toCardinality'') (JStr [])) (\<lambda>to_cardinality.
     rbind (py_get relationship (u ''crossFilteringBehavior'') (JStr [])) (\<lambda>cross_filtering_behavior.
     rbind (py_get relationship (u ''isActive'') (JBool True)) (\<lambda>is_active.
     rbind (dict_get table_source_lookup from_table dax_created) (\<lambda>from_source_table.
     rbind (dict_get table_source_lookup to_table dax_created) (\<lambda>to_source_table.
       let from_source_column =
             (case map_of column_source_lookup
                     (py_str repr from_table @ [46] @ py_str repr from_column) of
                Some c \<Rightarrow> c | None \<Rightarrow> from_column);
           to_source_column =
             (case map_of column_source_lookup
                     (py_str repr to_table @ [46] @ py_str repr to_column) of
                Some c \<Rightarrow> c | None \<Rightarrow> to_column)
       in Inr \<lparr>rel_from_table =
                  py_str repr from_table @ [10, 40, 28304, 34920, 58, 32] @ from_source_table @ [41],
                rel_from_column =
                  py_str repr from_column @ [10, 40, 28304, 21015, 58, 32]
                  @ py_str repr from_source_column @ [41],
                rel_to_table =
                  py_str repr to_table @ [10, 40, 28304, 34920, 58, 32] @ to_source_table @ [41],
                rel_to_column =
                  py_str repr to_column @ [10, 40, 28304, 21015, 58, 32]
                  @ py_str repr to_source_column @ [41],
                rel_cardinality = (if py_truth to_cardinality then many_to_many else one_to_many),
                rel_cross_filtering =
                  (if py_truth cross_filtering_behavior then both_directions
                   else single_direction),
                rel_is_active = (if is_active = JBool False then not_enabled else enabled)\<rparr>
     )))))))))"

text \<open>\<^verbatim>\<open>_parse_relationships\<close>. Its guard asks for \<^verbatim>\<open>"relationships"\<close> only; the tables
  are then read with \<^verbatim>\<open>raw_data["model"]["tables"]\<close>. One loop over the tables fills
  \<^verbatim>\<open>table_source_lookup\<close>, a second one \<^verbatim>\<open>column_source_lookup\<close>.\<close>

definition parse_relationships :: "(json \<Rightarrow> pstr) \<Rightarrow> json \<Rightarrow> exn + relationship_info list" where
  "parse_relationships repr raw_data =
     rbind (py_contains (u ''model'') raw_data) (\<lambda>b.
       if \<not> b then Inr []
       else rbind (py_getitem raw_data (u ''model'')) (\<lambda>model.
         rbind (py_contains (u ''relationships'') model) (\<lambda>b'.
           if \<not> b' then Inr []
           else rbind (py_getitem model (u ''tables'')) (\<lambda>tables.
             rbind (py_iter tables) (\<lambda>ts.
               rbind (rfold table_lookup_step ts []) (\<lambda>table_source_lookup.
                 rbind (rfold (columns_lookup_step repr raw_data) ts []) (\<lambda>column_source_lookup.
                   rbind (py_getitem model (u ''relationships'')) (\<lambda>relationships.
                     rbind (py_iter relationships) (\<lambda>rs.
                       rmap (relationship_row repr table_source_lookup column_source_lookup)
                            rs)))))))))"

section \<open>Overview aggregator\<close>

record overview_info =
  ov_table_name :: json
  ov_source_table :: pstr
  ov_column_count :: nat
  ov_measure_count :: nat
  ov_partition_count :: nat
  ov_instance_address :: pstr
  ov_database_name :: pstr
  ov_protocol :: pstr

text \<open>The first loop sets the counter of every table name to 0, which raises for a name
  that cannot be a key.\<close>

definition counter_step :: "json \<Rightarrow> nat pydict \<Rightarrow> exn + nat pydict" where
  "counter_step table table_measure_counts =
     rbind (py_get table (u ''name'') (JStr [])) (\<lambda>table_name.
       dict_set table_measure_counts table_name 0)"

text \<open>The tables one measure involves; \<^verbatim>\<open>re.findall\<close> raises on what is not a string.\<close>

definition overview_involved :: "json \<Rightarrow> exn + pstr list" where
  "overview_involved meas =
     rbind (py_get meas (u ''expression'') (JStr [])) (\<lambda>expression.
       rbind (case expression of JList ls \<Rightarrow> rbind (py_join [32] ls) (\<lambda>s. Inr (JStr s))
              | _ \<Rightarrow> Inr expression) (\<lambda>expression'.
         case expression' of
           JStr s \<Rightarrow> Inr (extract_involved_tables s)
         | _ \<Rightarrow> Inl TypeError))"

text \<open>The second loop adds 1 to the counter of every table a measure involves, when the
  dict has that name as a key.\<close>

fun count_involved :: "pstr list \<Rightarrow> nat pydict \<Rightarrow> nat pydict" where
  "count_involved [] table_measure_counts = table_measure_counts"
| "count_involved (involved_table # ts) table_measure_counts =
     count_involved ts
       (if list_ex (\<lambda>p. py_eq (fst p) (JStr involved_table)) table_measure_counts
        then (JStr involved_table,
              dict_lookup table_measure_counts (JStr involved_table) 0 + 1) # table_measure_counts
        else table_measure_counts)"

definition count_step :: "json \<Rightarrow> nat pydict \<Rightarrow> exn + nat pydict" where
  "count_step table table_measure_counts =
     rbind (measures_of table) (\<lambda>ms.
       rfold (\<lambda>meas counts. rbind (overview_involved meas) (\<lambda>involved_tables.
                Inr (count_involved involved_tables counts)))
             ms table_measure_counts)"

text \<open>\<^verbatim>\<open>instance_address.split('/')[0]\<close> when the address has a slash.\<close>

definition protocol_of :: "pstr \<Rightarrow> pstr" where
  "protocol_of instance_address =
     (if instance_address \<noteq> [] \<and> 47 \<in> set instance_address
      then takeWhile (\<lambda>c. c \<noteq> 47) instance_address else [])"

definition overview_row :: "nat pydict \<Rightarrow> json \<Rightarrow> exn + overview_info" where
  "overview_row table_measure_counts table =
     rbind (py_get table (u ''name'') (JStr [])) (\<lambda>table_name.
     rbind (rbind (py_get table (u ''columns'') (JList [])) py_len) (\<lambda>column_count.
     rbind (rbind (py_get table (u ''partitions'') (JList [])) py_len) (\<lambda>partition_count.
     rbind (partitions_of table) (\<lambda>ps.
     rbind (first_expression ps) (\<lambda>oe.
     rbind (case oe of None \<Rightarrow> Inr (dax_created, [], [])
            | Some expression \<Rightarrow>
                rbind (extract_source_table expression) (\<lambda>source_table.
                  rbind (extract_connection_info expression) (\<lambda>conn.
                    Inr (source_table, fst conn, snd conn)))) (\<lambda>found.
     rbind (dict_get table_measure_counts table_name 0) (\<lambda>measure_count.
       Inr \<lparr>ov_table_name = table_name, ov_source_table = fst found,
            ov_column_count = column_count, ov_measure_count = measure_count,
            ov_partition_count = partition_count,
            ov_instance_address = fst (snd found), ov_database_name = snd (snd found),
            ov_protocol = protocol_of (fst (snd found))\<rparr>)))))))"

text \<open>\<^verbatim>\<open>_generate_overview\<close>\<close>

definition generate_overview :: "json \<Rightarrow> exn + overview_info list" where
  "generate_overview raw_data =
     rbind (py_contains (u ''model'') raw_data) (\<lambda>b.
       if \<not> b then Inr []
       else rbind (py_getitem raw_data (u ''model'')) (\<lambda>model.
         rbind (py_get model (u ''tables'') (JList [])) (\<lambda>tables.
           rbind (py_iter tables) (\<lambda>ts.
             rbind (rfold counter_step ts []) (\<lambda>counts0.
               rbind (rfold count_step ts counts0) (\<lambda>table_measure_counts.
                 rmap (overview_row table_measure_counts) ts))))))"

section \<open>The parse call\<close>

text \<open>\<^verbatim>\<open>_locate_model\<close>: the value under \<^verbatim>\<open>model\<close> or \<^verbatim>\<open>SemanticModel\<close> when it is a dict,
  the object itself when it has a list under \<^verbatim>\<open>tables\<close>, else the first model found
  in its values, depth first.\<close>

fun is_dict :: "json \<Rightarrow> bool" where
  "is_dict (JDict kv) = True"
| "is_dict _ = False"

text \<open>\<^verbatim>\<open>k in obj and isinstance(obj[k], T)\<close> for the items \<open>kv\<close> of a dict.\<close>

definition field_is :: "(json \<Rightarrow> bool) \<Rightarrow> (pstr \<times> json) list \<Rightarrow> pstr \<Rightarrow> bool" where
  "field_is P kv k = (case map_of kv k of Some v \<Rightarrow> P v | None \<Rightarrow> False)"

fun locate_model :: "json \<Rightarrow> json option"
  and locate_values :: "(pstr \<times> json) list \<Rightarrow> json option"
  and locate_items :: "json list \<Rightarrow> json option" where
  "locate_model (JDict kv) =
     (if field_is is_dict kv (u ''model'') then map_of kv (u ''model'')
      else if field_is is_dict kv (u ''SemanticModel'') then map_of kv (u ''SemanticModel'')
      else if field_is is_list kv (u ''tables'') then Some (JDict kv)
      else locate_values kv)"
| "locate_model (JList xs) = locate_items xs"
| "locate_model JNull = None"
| "locate_model (JBool b) = None"
| "locate_model (JInt i) = None"
| "locate_model (JStr s) = None"
| "locate_values [] = None"
| "locate_values (p # kv) =
     (case locate_model (snd p) of Some m \<Rightarrow> Some m | None \<Rightarrow> locate_values kv)"
| "locate_items [] = None"
| "locate_items (v # vs) =
     (case locate_model v of Some m \<Rightarrow> Some m | None \<Rightarrow> locate_items vs)"

text \<open>What \<^verbatim>\<open>parse_file\<close> returns: the five collections, or an error text. The text of
  a decoding error is a fixed prefix, U+65E0 U+6CD5 U+89E3 U+6790 U+4E3A and
  \<^verbatim>\<open>"JSON: "\<close>, before the message of the decoder; the text of any other exception is
  \<^verbatim>\<open>str(e)\<close>.\<close>

record parse_output =
  out_tables :: "table_info list"
  out_columns :: "column_info list"
  out_measures :: "measure_ref list"
  out_relationships :: "relationship_info list"
  out_overview :: "overview_info list"

datatype error_text = Text pstr | StrOf exn

datatype parse_result = Success parse_output | Failure error_text

definition cannot_decode :: pstr where
  "cannot_decode = [26080, 27861, 35299, 26512, 20026] @ u ''JSON: ''"

text \<open>The passes in the order \<^verbatim>\<open>parse_file\<close> calls them.\<close>

definition run_passes :: "(json \<Rightarrow> pstr) \<Rightarrow> json \<Rightarrow> exn + parse_output" where
  "run_passes repr raw_data =
     rbind (parse_tables raw_data) (\<lambda>tables_info.
     rbind (parse_columns raw_data) (\<lambda>columns_info.
     rbind (parse_measures repr raw_data) (\<lambda>measures_info.
     rbind (parse_relationships repr raw_data) (\<lambda>relationships_info.
     rbind (generate_overview raw_data) (\<lambda>overview_info.
     rbind (resolve_all_measure_references measures_info) (\<lambda>measures_info'.
       Inr \<lparr>out_tables = tables_info, out_columns = columns_info,
            out_measures = measures_info', out_relationships = relationships_info,
            out_overview = overview_info\<rparr>))))))"

text \<open>
  \<^verbatim>\<open>parse_file\<close>. The decoder \<^verbatim>\<open>json.loads\<close> is the parameter \<open>loads\<close>: it returns the
  decoded value, or the message of the exception it raises. Both \<^verbatim>\<open>try\<close> blocks catch
  \<^verbatim>\<open>Exception\<close>.
\<close>

definition raw_data_of :: "json \<Rightarrow> json" where
  "raw_data_of parsed =
     (case locate_model parsed of
        None \<Rightarrow> parsed
      | Some model_obj \<Rightarrow> JDict [(u ''model'', model_obj)])"

definition parse_file ::
  "(pstr \<Rightarrow> pstr + json) \<Rightarrow> (json \<Rightarrow> pstr) \<Rightarrow> pstr \<Rightarrow> parse_result" where
  "parse_file loads repr file_content =
     (case loads file_content of
        Inl e_json \<Rightarrow> Failure (Text (cannot_decode @ e_json))
      | Inr parsed \<Rightarrow>
          (case run_passes repr (raw_data_of parsed) of
             Inl e \<Rightarrow> Failure (StrOf e)
           | Inr out \<Rightarrow> Success out))"

section \<open>The parse call with its output\<close>

text \<open>
  The passes above leave out the \<^verbatim>\<open>print\<close> calls of the parser. There are eight: in
  \<^verbatim>\<open>_parse_tables\<close> the warning when the guard returns, the number of tables before the
  loop and the notice for a system table left out; at the end of the \<^verbatim>\<open>try\<close> block of
  \<^verbatim>\<open>parse_file\<close> the sizes of four collections; and in its handler the text of the
  exception caught. The standard output is the parameter \<open>console\<close>: it tells of a
  message whether it is written, and \<^verbatim>\<open>print\<close> raises when it is not.
\<close>

datatype message =
    No_tables_found
  | Tables_start nat
  | System_table_skipped json
  | Tables_parsed nat
  | Columns_parsed nat
  | Measures_parsed nat
  | Relationships_parsed nat
  | Parse_error exn

definition py_print :: "(message \<Rightarrow> bool) \<Rightarrow> message \<Rightarrow> exn + 'a \<Rightarrow> exn + 'a" where
  "py_print console m rest = (if console m then rest else Inl OutputError)"

text \<open>One turn of the loop of \<^verbatim>\<open>_parse_tables\<close>, with the notice for a system table.\<close>

definition table_rows_io :: "(message \<Rightarrow> bool) \<Rightarrow> json \<Rightarrow> exn + table_info list" where
  "table_rows_io console table =
     rbind (py_get table (u ''name'') (JStr [])) (\<lambda>table_name.
       if list_ex (py_eq table_name) system_tables
       then py_print console (System_table_skipped table_name) (Inr [])
       else rbind (source_table_of table) (\<lambda>source_table.
         rbind (partition_count_of table) (\<lambda>partition_count.
           Inr [\<lparr>tbl_name = table_name, tbl_source_table = source_table,
                 tbl_partition_count = partition_count\<rparr>])))"

text \<open>\<^verbatim>\<open>_parse_tables\<close> with its three \<^verbatim>\<open>print\<close> calls.\<close>

definition parse_tables_io :: "(message \<Rightarrow> bool) \<Rightarrow> json \<Rightarrow> exn + table_info list" where
  "parse_tables_io console raw_data =
     rbind (model_tables raw_data) (\<lambda>ot.
       case ot of
         None \<Rightarrow> py_print console No_tables_found (Inr [])
       | Some tables \<Rightarrow>
           rbind (py_len tables) (\<lambda>n.
             py_print console (Tables_start n)
               (rbind (py_iter tables) (\<lambda>ts.
                  rbind (rmap (table_rows_io console) ts) (\<lambda>rows. Inr (concat rows))))))"

text \<open>The body of the outer \<^verbatim>\<open>try\<close> block after the decoding: the passes, then the four
  \<^verbatim>\<open>print\<close> calls, then the result.\<close>

definition run_passes_io ::
  "(json \<Rightarrow> pstr) \<Rightarrow> (message \<Rightarrow> bool) \<Rightarrow> json \<Rightarrow> exn + parse_output" where
  "run_passes_io repr console raw_data =
     rbind (parse_tables_io console raw_data) (\<lambda>tables_info.
     rbind (parse_columns raw_data) (\<lambda>columns_info.
     rbind (parse_measures repr raw_data) (\<lambda>measures_info.
     rbind (parse_relationships repr raw_data) (\<lambda>relationships_info.
     rbind (generate_overview raw_data) (\<lambda>overview_info.
     rbind (resolve_all_measure_references measures_info) (\<lambda>measures_info'.
       py_print console (Tables_parsed (length tables_info))
         (py_print console (Columns_parsed (length columns_info))
           (py_print console (Measures_parsed (length measures_info'))
             (py_print console (Relationships_parsed (length relationships_info))
               (Inr \<lparr>out_tables = tables_info, out_columns = columns_info,
                     out_measures = measures_info', out_relationships = relationships_info,
                     out_overview = overview_info\<rparr>))))))))))"

text \<open>
  \<^verbatim>\<open>parse_file\<close> as a call that returns a result (\<open>Inr\<close>) or lets an exception out to its
  caller (\<open>Inl\<close>). The handler of the decoding returns at once. The outer handler first
  prints the text of the exception it caught, outside every \<^verbatim>\<open>try\<close>, and then returns.
\<close>

definition parse_file_io ::
  "(pstr \<Rightarrow> pstr + json) \<Rightarrow> (json \<Rightarrow> pstr) \<Rightarrow> (message \<Rightarrow> bool) \<Rightarrow> pstr
   \<Rightarrow> exn + parse_result" where
  "parse_file_io loads repr console file_content =
     (case loads file_content of
        Inl e_json \<Rightarrow> Inr (Failure (Text (cannot_decode @ e_json)))
      | Inr parsed \<Rightarrow>
          (case run_passes_io repr console (raw_data_of parsed) of
             Inl e \<Rightarrow> py_print console (Parse_error e) (Inr (Failure (StrOf e)))
           | Inr out \<Rightarrow> Inr (Success out)))"

section \<open>Example documents\<close>

text \<open>A table with three partitions: one without a source, one whose expression has
  neither an item tag nor a \<^verbatim>\<open>FROM\<close> clause, and one whose expression is
  \<^verbatim>\<open>Item="T"\<close>.\<close>

definition plain_partition :: json where
  "plain_partition =
     JDict [(u ''source'', JDict [(u ''expression'', JList [JStr (u ''let x = 1'')])])]"

definition item_partition :: json where
  "item_partition =
     JDict [(u ''source'',
             JDict [(u ''expression'', JList [JStr (u ''Item='' @ [34] @ u ''T'' @ [34])])])]"

definition three_partition_table :: json where
  "three_partition_table =
     JDict [(u ''name'', JStr (u ''Orders'')),
            (u ''partitions'', JList [JDict [], plain_partition, item_partition])]"

text \<open>A measure whose expression \<^verbatim>\<open>[A]+1\<close> refers to the measure itself, and two measures
  of which the first refers to the second twice and to an unknown name.\<close>

definition self_measure :: measure_info where
  "self_measure =
     \<lparr>mi_name = JStr (u ''A''), mi_expression = u ''[A]+1'', mi_format_string = JStr [],
      mi_display_folder = JStr [], mi_involved_tables = [], mi_involved_columns = []\<rparr>"

definition ratio_measures :: "measure_info list" where
  "ratio_measures =
     [\<lparr>mi_name = JStr (u ''Ratio''), mi_expression = u ''[Base]/([Base]+[Rows])'',
       mi_format_string = JStr [], mi_display_folder = JStr [], mi_involved_tables = [],
       mi_involved_columns = []\<rparr>,
      \<lparr>mi_name = JStr (u ''Base''), mi_expression = u ''1'', mi_format_string = JStr [],
       mi_display_folder = JStr [], mi_involved_tables = [], mi_involved_columns = []\<rparr>]"


definition empty_output :: parse_output where
  "empty_output =
     \<lparr>out_tables = [], out_columns = [], out_measures = [], out_relationships = [],
      out_overview = []\<rparr>"








text \<open>Two expressions of two lines each: a query whose \<^verbatim>\<open>FROM\<close> ends the first line, and a
  source assignment whose value is on the second line.\<close>

definition from_lines :: "json list" where
  "from_lines = [JStr (u ''select * FROM''), JStr (u ''orders'')]"

definition source_lines :: "json list" where
  "source_lines = [JStr (u ''Source =''), JStr (u ''#'' @ [34] @ u ''h;db'' @ [34])]"

text \<open>
  The worked example of the specification: the table \<^verbatim>\<open>Sales\<close> with one partition whose
  expression is the one line \<^verbatim>\<open>Source = #"MySql/host:3306;salesdb"\<close>, the column
  \<^verbatim>\<open>Amt\<close> and the measure \<^verbatim>\<open>Total\<close> with the expression \<^verbatim>\<open>SUM('Sales'[Amt])\<close>; and
  what \<^verbatim>\<open>parse_file\<close> returns for it.
\<close>

definition sales_expression :: json where
  "sales_expression =
     JList [JStr (u ''Source = #'' @ [34] @ u ''MySql/host:3306;salesdb'' @ [34])]"

definition total_expr :: pstr where
  "total_expr = u ''SUM('' @ [39] @ u ''Sales'' @ [39] @ u ''[Amt])''"

definition sales_table :: json where
  "sales_table =
     JDict [(u ''name'', JStr (u ''Sales'')),
            (u ''partitions'',
             JList [JDict [(u ''source'', JDict [(u ''expression'', sales_expression)])]]),
            (u ''columns'',
             JList [JDict [(u ''name'', JStr (u ''Amt'')),
                           (u ''dataType'', JStr (u ''Decimal''))]]),
            (u ''measures'',
             JList [JDict [(u ''name'', JStr (u ''Total'')),
                           (u ''expression'', JStr total_expr)]])]"

definition sales_model :: json where
  "sales_model = JDict [(u ''tables'', JList [sales_table]), (u ''relationships'', JList [])]"

definition sales_doc :: json where
  "sales_doc = JDict [(u ''model'', sales_model)]"

definition sales_output :: parse_output where
  "sales_output =
     \<lparr>out_tables =
        [\<lparr>tbl_name = JStr (u ''Sales''), tbl_source_table = dax_created,
          tbl_partition_count = 1\<rparr>],
      out_columns =
        [\<lparr>col_table_name = JStr (u ''Sales''), col_source_table = dax_created,
          col_column_name = JStr (u ''Amt''), col_source_column = JStr (u ''Amt''),
          col_data_type = JStr (u ''Decimal'')\<rparr>],
      out_measures =
        [\<lparr>mi_name = JStr (u ''Total''), mi_expression = total_expr,
          mi_format_string = JStr [], mi_display_folder = JStr [],
          mi_involved_tables = u ''Sales'' @ source_table_label @ dax_created @ u '')'',
          mi_involved_columns = u ''Amt'' @ source_column_label @ u ''Amt)'',
          mi_references = []\<rparr>],
      out_relationships = [],
      out_overview =
        [\<lparr>ov_table_name = JStr (u ''Sales''), ov_source_table = dax_created,
          ov_column_count = 1, ov_measure_count = 1, ov_partition_count = 1,
          ov_instance_address = u ''MySql/host:3306'', ov_database_name = u ''salesdb'',
          ov_protocol = u ''MySql''\<rparr>]\<rparr>"

text \<open>A table \<^verbatim>\<open>T\<close> with the column \<^verbatim>\<open>c\<close> and two measures: \<^verbatim>\<open>A\<close> is \<^verbatim>\<open>[B]\<close> and \<^verbatim>\<open>B\<close> is
  \<^verbatim>\<open>SUM('T'[c])\<close>.\<close>

definition sum_expr :: pstr where
  "sum_expr = u ''SUM('' @ [39] @ u ''T'' @ [39] @ u ''[c])''"

definition nested_table :: json where
  "nested_table =
     JDict [(u ''name'', JStr (u ''T'')),
            (u ''columns'', JList [JDict [(u ''name'', JStr (u ''c''))]]),
            (u ''measures'',
             JList [JDict [(u ''name'', JStr (u ''A'')), (u ''expression'', JStr (u ''[B]''))],
                    JDict [(u ''name'', JStr (u ''B'')), (u ''expression'', JStr sum_expr)]])]"

definition nested_doc :: json where
  "nested_doc = JDict [(u ''model'', JDict [(u ''tables'', JList [nested_table])])]"

text \<open>A model whose only table is the system table, with one column; and a model that
  has relationships but no tables.\<close>

definition system_doc :: json where
  "system_doc =
     JDict [(u ''model'',
             JDict [(u ''tables'',
                     JList [JDict [(u ''name'',
                                    JStr (u ''User_'' @ [29992, 25143, 26435, 38480, 34920])),
                                   (u ''columns'',
                                    JList [JDict [(u ''name'', JStr (u ''uid''))]])]])])]"

definition tableless_doc :: json where
  "tableless_doc = JDict [(u ''model'', JDict [(u ''relationships'', JList [])])]"

text \<open>Two measures that refer to each other: \<^verbatim>\<open>A\<close> is \<^verbatim>\<open>[B]+[A]\<close> and \<^verbatim>\<open>B\<close> is \<^verbatim>\<open>[A]\<close>.\<close>

definition mutual_measures :: "(pstr \<times> pstr) list" where
  "mutual_measures = [(u ''B'', u ''[A]''), (u ''A'', u ''[B]+[A]'')]"

section \<open>Properties\<close>

lemmas py_defs = u_def rbind_def py_join_def Plus_def group_def not_ch_def one_of_def
  is_space_def is_alpha_def is_digit_def ident_start_def ident_char_def folds_to_ascii_def

lemmas pass_defs = model_tables_def source_table_of_def partitions_of_def
  partition_count_of_def has_expression_def get_expression_def columns_of_def measures_of_def

lemmas pat_defs = item_pattern_def from_pattern_def native_query_pattern_def
  source_pattern_def schema_pattern_def rename_pattern_def quoted_pair_pattern_def
  bare_pair_pattern_def table_pattern_def column_pattern_def measure_pattern_def
  column_of_table_pattern_def

lemmas sales_defs = sales_doc_def sales_model_def sales_table_def sales_expression_def

subsection \<open>The partition that gives the source table\<close>

lemma first_expression_skips:
  "list_all (\<lambda>q. has_expression q = Inr False) ps1 \<Longrightarrow> has_expression p = Inr True
   \<Longrightarrow> get_expression p = Inr e \<Longrightarrow> first_expression (ps1 @ p # ps2) = Inr (Some e)"
  by (induction ps1) (simp_all add: rbind_def)

text \<open>
  C1, as the claim states it: when the expression of an earlier partition yields no match
  and that of a later partition does, the name extracted from the later one is the source
  table. It fails: for the table \<open>three_partition_table\<close> the record of
  \<^verbatim>\<open>_parse_tables\<close> has the default name, although the expression of the third
  partition yields \<^verbatim>\<open>T\<close>.
\<close>

theorem later_partition_counterexample:
  "parse_tables (JDict [(u ''model'', JDict [(u ''tables'', JList [three_partition_table])])])
   = Inr [\<lparr>tbl_name = JStr (u ''Orders''), tbl_source_table = dax_created,
           tbl_partition_count = 3\<rparr>]
   \<and> extract_source_table (JList [JStr (u ''Item='' @ [34] @ u ''T'' @ [34])]) = Inr (u ''T'')
   \<and> dax_created \<noteq> u ''T''"
  by (simp add: parse_tables_def model_tables_def table_rows_def system_tables_def
      source_table_of_def partitions_of_def partition_count_of_def has_expression_def
      get_expression_def three_partition_table_def plain_partition_def item_partition_def
      extract_source_table_def py_defs item_pattern_def from_pattern_def dax_created_def)

text \<open>
  C1, amended: the source table of a table is what the extraction returns for the first
  partition that has a source expression, be it a name or the default name; partitions
  without a source expression before it are passed over, and no partition after it is
  looked at.
\<close>

theorem first_partition_with_expression_decides:
  assumes "map_of kv (u ''partitions'') = Some (JList (ps1 @ p # ps2))"
    and "list_all (\<lambda>q. has_expression q = Inr False) ps1"
    and "has_expression p = Inr True"
    and "get_expression p = Inr e"
  shows "source_table_of (JDict kv) = extract_source_table e"
proof -
  have "u ''partitions'' \<in> set (map fst kv)"
    using assms(1) by (metis map_of_eq_None_iff option.distinct(1) set_map)
  then have "partitions_of (JDict kv) = Inr (ps1 @ p # ps2)"
    using assms(1) by (simp add: partitions_of_def rbind_def)
  then show ?thesis
    using first_expression_skips [OF assms(2-4)] by (simp add: source_table_of_def rbind_def)
qed

theorem first_partition_with_expression_decides_witness:
  "source_table_of three_partition_table = Inr dax_created"
  using first_partition_with_expression_decides
    [of "[(u ''name'', JStr (u ''Orders'')),
          (u ''partitions'', JList [JDict [], plain_partition, item_partition])]"
        "[JDict []]" plain_partition "[item_partition]" "JList [JStr (u ''let x = 1'')]"]
  by (simp add: three_partition_table_def plain_partition_def has_expression_def
      get_expression_def extract_source_table_def py_defs item_pattern_def from_pattern_def)

subsection \<open>Expressions given as one string\<close>

text \<open>
  C2, as the claim states it: a backing expression given as one string is matched like a
  list of lines. It fails: for the one string \<^verbatim>\<open>Item="T"\<close> the source table is the
  default name, while the list holding that one line gives \<^verbatim>\<open>T\<close>.
\<close>

theorem single_string_expression_counterexample:
  "extract_source_table (JStr (u ''Item='' @ [34] @ u ''T'' @ [34])) = Inr dax_created
   \<and> extract_source_table (JList [JStr (u ''Item='' @ [34] @ u ''T'' @ [34])]) = Inr (u ''T'')
   \<and> dax_created \<noteq> u ''T''"
  by (simp add: extract_source_table_def py_defs item_pattern_def dax_created_def)

text \<open>
  C2, amended: both extractions guard on \<^verbatim>\<open>isinstance(expression, list)\<close>. For an
  expression given as one string, whatever it holds, the source table is the default
  name and the instance address and database name are empty. The lines of an expression
  given as a list of strings are joined by newlines, and the joined text is matched:
  the item tag, else the \<^verbatim>\<open>FROM\<close> clause, else the default name for the source table;
  the native query, else the source assignment, else the schema tag, else empty strings
  for the connection.
\<close>

theorem single_string_expression_is_not_matched:
  "extract_source_table (JStr s) = Inr dax_created
   \<and> extract_connection_info (JStr s) = Inr ([], [])
   \<and> (rmap as_str ls = Inr ss \<longrightarrow>
        extract_source_table (JList ls) =
          Inr (case rx_search item_pattern (join_strs [10] ss) of
                 Some m \<Rightarrow> group (fst m) 1
               | None \<Rightarrow> (case rx_search from_pattern (join_strs [10] ss) of
                            Some m \<Rightarrow> group (fst m) 1
                          | None \<Rightarrow> dax_created))
        \<and> extract_connection_info (JList ls) =
          Inr (case rx_search native_query_pattern (join_strs [10] ss) of
                 Some m \<Rightarrow> (group (fst m) 1, group (fst m) 2)
               | None \<Rightarrow> (case rx_search source_pattern (join_strs [10] ss) of
                            Some m \<Rightarrow> (group (fst m) 1, group (fst m) 2)
                          | None \<Rightarrow> (case rx_search schema_pattern (join_strs [10] ss) of
                                       Some m \<Rightarrow> ([], group (fst m) 1)
                                     | None \<Rightarrow> ([], [])))))"
  by (simp add: extract_source_table_def extract_connection_info_def py_join_def rbind_def
      split: option.splits)

theorem single_string_expression_is_not_matched_witness:
  "extract_source_table (JStr (u ''select * FROM orders'')) = Inr dax_created
   \<and> extract_source_table (JList from_lines) = Inr (u ''orders'')
   \<and> extract_connection_info (JList from_lines) = Inr ([], [])
   \<and> extract_source_table (JList source_lines) = Inr dax_created
   \<and> extract_connection_info (JList source_lines) = Inr (u ''h'', u ''db'')"
  using
    single_string_expression_is_not_matched
      [of "u ''select * FROM orders''" from_lines "[u ''select * FROM'', u ''orders'']"]
    single_string_expression_is_not_matched
      [of "[]" source_lines "[u ''Source ='', u ''#'' @ [34] @ u ''h;db'' @ [34]]"]
  by (simp add: from_lines_def source_lines_def py_defs pat_defs)

subsection \<open>Measures that refer to each other\<close>

lemma resolve_visited_distinct:
  "distinct (fst st) \<Longrightarrow> distinct (fst (resolve_measure_references lk todo st))"
proof (induction lk todo st rule: resolve_measure_references.induct)
  case (1 lk st)
  then show ?case by simp
next
  case (2 lk match rest visited all_tables all_columns)
  then show ?case by (auto split: option.splits)
qed

lemma resolve_visited_known:
  "set (fst st) \<subseteq> set (map fst lk)
   \<Longrightarrow> set (fst (resolve_measure_references lk todo st)) \<subseteq> set (map fst lk)"
proof (induction lk todo st rule: resolve_measure_references.induct)
  case (1 lk st)
  then show ?case by simp
next
  case (2 lk match rest visited all_tables all_columns)
  show ?case
  proof (cases "map_of lk match")
    case None
    with 2 show ?thesis by simp
  next
    case (Some e)
    then have "match \<in> set (map fst lk)"
      by (metis map_of_eq_None_iff option.distinct(1) set_map)
    with 2 Some show ?thesis by (cases "match \<in> set visited") auto
  qed
qed

text \<open>
  C5: whatever the measures are, also when they refer to themselves or to each other,
  the resolution of the tables and columns of a measure returns (the function is total:
  every call either visits a measure not visited before or drops a token), and the
  measures it visits are measures of the model, each visited once.
\<close>

theorem resolution_terminates_visiting_once:
  "\<exists>visited all_tables all_columns.
     involved_of lk expression = (visited, all_tables, all_columns)
     \<and> distinct visited \<and> set visited \<subseteq> set (map fst lk)"
proof -
  obtain visited all_tables all_columns
    where r: "involved_of lk expression = (visited, all_tables, all_columns)"
    by (cases "involved_of lk expression") auto
  have "distinct (fst (involved_of lk expression))"
    unfolding involved_of_def by (rule resolve_visited_distinct) simp
  moreover have "set (fst (involved_of lk expression)) \<subseteq> set (map fst lk)"
    unfolding involved_of_def by (rule resolve_visited_known) simp
  ultimately show ?thesis using r by simp
qed

theorem resolution_terminates_visiting_once_witness:
  "involved_of mutual_measures (u ''[B]+[A]'') = ([u ''B'', u ''A''], [], [])"
  using resolution_terminates_visiting_once [of mutual_measures "u ''[B]+[A]''"]
  by (simp add: involved_of_def mutual_measures_def bracket_tokens_def
      extract_involved_tables_def extract_involved_columns_def py_defs pat_defs)

subsection \<open>The measures an expression refers to\<close>

lemma collect_references_set:
  "set (collect_references names ms acc) = set acc \<union> (set ms \<inter> set names)"
  by (induction names ms acc rule: collect_references.induct) auto

lemma collect_references_distinct:
  "distinct acc \<Longrightarrow> distinct (collect_references names ms acc)"
  by (induction names ms acc rule: collect_references.induct) auto

text \<open>
  C6, as the claim states it: the references attached to a measure never hold the name of
  the measure itself. It fails: the measure \<^verbatim>\<open>A\<close> with the expression \<^verbatim>\<open>[A]+1\<close> gets the
  reference \<^verbatim>\<open>A\<close>.
\<close>

theorem own_name_reference_counterexample:
  "resolve_all_measure_references [self_measure] =
     Inr [\<lparr>mi_name = JStr (u ''A''), mi_expression = u ''[A]+1'', mi_format_string = JStr [],
           mi_display_folder = JStr [], mi_involved_tables = [], mi_involved_columns = [],
           mi_references = u ''A''\<rparr>]"
  by (simp add: resolve_all_measure_references_def self_measure_def referenced_measures_of_def
      bracket_tokens_def measure_pattern_def py_defs)

text \<open>
  C6, amended: the references attached to a measure by the final pass are the names, one
  to a line, of exactly the measures whose names stand in brackets in the expression of
  that measure, each name once; the name of the measure itself is among them when the
  expression has it in brackets. The expressions of the measures referred to are not
  looked at.
\<close>

theorem references_are_bracketed_measure_names:
  assumes "resolve_all_measure_references ms = Inr rs" and "i < length ms"
  shows "mi_references (rs ! i) =
           join_strs [10] (referenced_measures_of (measure_names ms) (mi_expression (ms ! i)))
         \<and> set (referenced_measures_of (measure_names ms) (mi_expression (ms ! i))) =
             set (bracket_tokens (mi_expression (ms ! i))) \<inter> set (measure_names ms)
         \<and> distinct (referenced_measures_of (measure_names ms) (mi_expression (ms ! i)))"
proof -
  from assms(1)
  have "rs = map (\<lambda>m. \<lparr>mi_name = mi_name m, mi_expression = mi_expression m,
                         mi_format_string = mi_format_string m,
                         mi_display_folder = mi_display_folder m,
                         mi_involved_tables = mi_involved_tables m,
                         mi_involved_columns = mi_involved_columns m,
                         mi_references =
                           join_strs [10]
                             (referenced_measures_of (measure_names ms) (mi_expression m))\<rparr>)
                 ms"
    by (simp add: resolve_all_measure_references_def split: if_splits)
  with assms(2) show ?thesis
    by (simp add: referenced_measures_of_def collect_references_set
        collect_references_distinct)
qed

theorem references_are_bracketed_measure_names_witness:
  "map mi_references (projr (resolve_all_measure_references ratio_measures)) = [u ''Base'', []]
   \<and> referenced_measures_of (measure_names ratio_measures) (u ''[Base]/([Base]+[Rows])'')
       = [u ''Base'']"
  using references_are_bracketed_measure_names
    [of ratio_measures "projr (resolve_all_measure_references ratio_measures)" 0]
  by (simp add: resolve_all_measure_references_def ratio_measures_def
      referenced_measures_of_def bracket_tokens_def measure_pattern_def py_defs)

subsection \<open>The result of the parse call\<close>

lemma run_passes_scalar: "run_passes repr (raw_data_of (JInt 5)) = Inl TypeError"
  by (simp add: run_passes_def raw_data_of_def parse_tables_def model_tables_def py_defs)

lemma run_passes_empty_object: "run_passes repr (raw_data_of (JDict [])) = Inr empty_output"
  by (simp add: run_passes_def raw_data_of_def parse_tables_def parse_columns_def
      parse_measures_def parse_relationships_def generate_overview_def
      resolve_all_measure_references_def model_tables_def py_defs field_is_def
      empty_output_def)

lemma parse_file_cases:
  "(loads s = Inl msg \<longrightarrow> parse_file loads repr s = Failure (Text (cannot_decode @ msg)))
   \<and> (loads s = Inr parsed \<longrightarrow> run_passes repr (raw_data_of parsed) = Inl e
        \<longrightarrow> parse_file loads repr s = Failure (StrOf e))
   \<and> (loads s = Inr parsed \<longrightarrow> run_passes repr (raw_data_of parsed) = Inr out
        \<longrightarrow> parse_file loads repr s = Success out)"
  by (simp add: parse_file_def)

text \<open>With a standard output that takes every text the passes and the call are the ones
  without output.\<close>

lemma table_rows_io_quiet: "table_rows_io (\<lambda>m. True) table = table_rows table"
  unfolding table_rows_io_def table_rows_def py_print_def by simp

lemma rmap_table_rows_io_quiet: "rmap (table_rows_io (\<lambda>m. True)) ts = rmap table_rows ts"
  by (induction ts) (simp_all add: table_rows_io_quiet)

lemma parse_tables_io_quiet: "parse_tables_io (\<lambda>m. True) raw_data = parse_tables raw_data"
  unfolding parse_tables_io_def parse_tables_def py_print_def rmap_table_rows_io_quiet
  by simp

lemma run_passes_io_quiet: "run_passes_io repr (\<lambda>m. True) raw_data = run_passes repr raw_data"
  unfolding run_passes_io_def run_passes_def py_print_def parse_tables_io_quiet by simp

lemma parse_file_io_quiet:
  "parse_file_io loads repr (\<lambda>m. True) file_content = Inr (parse_file loads repr file_content)"
  unfolding parse_file_io_def parse_file_def py_print_def run_passes_io_quiet
  by (simp split: sum.splits)

text \<open>What the call can let out: nothing but the exception of the \<^verbatim>\<open>print\<close> in the outer
  handler, after a pass or a \<^verbatim>\<open>print\<close> of the \<^verbatim>\<open>try\<close> block has raised.\<close>

lemma parse_file_io_raises_iff:
  "parse_file_io loads repr console file_content = Inl x \<longleftrightarrow>
     x = OutputError
     \<and> (\<exists>parsed e. loads file_content = Inr parsed
            \<and> run_passes_io repr console (raw_data_of parsed) = Inl e
            \<and> \<not> console (Parse_error e))"
  unfolding parse_file_io_def py_print_def by (auto split: sum.splits if_splits)

lemma parse_file_io_returns:
  "(loads file_content = Inl msg
      \<longrightarrow> parse_file_io loads repr console file_content
          = Inr (Failure (Text (cannot_decode @ msg))))
   \<and> (loads file_content = Inr parsed
        \<longrightarrow> run_passes_io repr console (raw_data_of parsed) = Inl e
        \<longrightarrow> console (Parse_error e)
        \<longrightarrow> parse_file_io loads repr console file_content = Inr (Failure (StrOf e)))
   \<and> (loads file_content = Inr parsed
        \<longrightarrow> run_passes_io repr console (raw_data_of parsed) = Inr out
        \<longrightarrow> parse_file_io loads repr console file_content = Inr (Success out))"
  unfolding parse_file_io_def py_print_def by simp



subsection \<open>A column renamed to its own name\<close>










subsection \<open>Columns of the measures referred to\<close>

lemma nested_model_tables: "model_tables nested_doc = Inr (Some (JList [nested_table]))"
  by (simp add: model_tables_def nested_doc_def py_defs)

lemma nested_collect:
  "collect_measures [nested_table] = Inr
     [\<lparr>md_name = JStr (u ''A''), md_expression = u ''[B]'', md_format_string = JStr [],
       md_display_folder = JStr [], md_table_name = JStr (u ''T'')\<rparr>,
      \<lparr>md_name = JStr (u ''B''), md_expression = sum_expr, md_format_string = JStr [],
       md_display_folder = JStr [], md_table_name = JStr (u ''T'')\<rparr>]"
  by (simp add: collect_measures_def measure_decl_of_def replace_quotes_def sum_expr_def
      nested_table_def pass_defs py_defs)

lemma nested_lookups:
  "rfold (lookups_step repr nested_doc) [nested_table] ([], [])
   = Inr ([(JStr (u ''T''), dax_created)], [(u ''T.c'', JStr (u ''c''))])"
  by (simp add: lookups_step_def table_lookup_step_def columns_lookup_step_def
      column_lookup_step_def dict_set_def py_str_def extract_column_source_from_m_function_def
      nested_doc_def nested_table_def pass_defs py_defs)

lemma nested_involved_outer:
  "involved_of [(u ''B'', sum_expr), (u ''A'', u ''[B]'')] (u ''[B]'')
   = ([u ''B''], [u ''T''], [u ''c''])"
  by (simp add: involved_of_def extract_involved_tables_def extract_involved_columns_def
      bracket_tokens_def sum_expr_def py_defs pat_defs)

lemma nested_involved_inner:
  "involved_of [(u ''B'', sum_expr), (u ''A'', u ''[B]'')] sum_expr = ([], [u ''T''], [u ''c''])"
  by (simp add: involved_of_def extract_involved_tables_def extract_involved_columns_def
      bracket_tokens_def sum_expr_def py_defs pat_defs)

lemma nested_columns_outer:
  "formatted_columns repr [(u ''T.c'', JStr (u ''c''))] (u ''[B]'') [u ''T''] [u ''c''] = []"
  by (simp add: formatted_columns_def py_str_def py_defs pat_defs)

lemma nested_columns_inner:
  "formatted_columns repr [(u ''T.c'', JStr (u ''c''))] sum_expr [u ''T''] [u ''c'']
   = [u ''c'' @ source_column_label @ u ''c)'']"
  by (simp add: formatted_columns_def py_str_def sum_expr_def py_defs pat_defs)

lemma nested_tables_line:
  "formatted_tables [(JStr (u ''T''), dax_created)] [u ''T'']
   = [u ''T'' @ source_table_label @ dax_created @ u '')'']"
  by (simp add: formatted_tables_def dict_lookup_def py_defs)

text \<open>
  C3 says that a column referred to only inside a measure that the measure refers to is
  among the involved columns rendered for the measure. The closure does merge it: for
  \<^verbatim>\<open>A = [B]\<close> and \<^verbatim>\<open>B = SUM('T'[c])\<close> it leaves the table \<^verbatim>\<open>T\<close> and the column \<^verbatim>\<open>c\<close> in
  \<^verbatim>\<open>all_tables\<close> and \<^verbatim>\<open>all_columns\<close> of \<^verbatim>\<open>A\<close>. The rendering then keeps a column only
  when the expression of \<^verbatim>\<open>A\<close> itself has it qualified by the table, so the record of
  \<^verbatim>\<open>A\<close> has the table line and no column line, while the record of \<^verbatim>\<open>B\<close> has both.
\<close>

theorem nested_measure_column_is_not_rendered:
  "involved_of [(u ''B'', sum_expr), (u ''A'', u ''[B]'')] (u ''[B]'')
     = ([u ''B''], [u ''T''], [u ''c''])
   \<and> parse_measures repr nested_doc = Inr
       [\<lparr>mi_name = JStr (u ''A''), mi_expression = u ''[B]'', mi_format_string = JStr [],
         mi_display_folder = JStr [],
         mi_involved_tables = u ''T'' @ source_table_label @ dax_created @ u '')'',
         mi_involved_columns = []\<rparr>,
        \<lparr>mi_name = JStr (u ''B''), mi_expression = sum_expr, mi_format_string = JStr [],
         mi_display_folder = JStr [],
         mi_involved_tables = u ''T'' @ source_table_label @ dax_created @ u '')'',
         mi_involved_columns = u ''c'' @ source_column_label @ u ''c)''\<rparr>]"
  by (simp add: parse_measures_def nested_model_tables rbind_def nested_collect nested_lookups
      nested_involved_outer nested_involved_inner nested_columns_outer nested_columns_inner
      nested_tables_line measure_row_def del: rfold.simps rmap.simps)

subsection \<open>The system table\<close>

text \<open>
  C4 says that the system table is in no collection. \<^verbatim>\<open>_parse_tables\<close> leaves it out;
  \<^verbatim>\<open>_parse_columns\<close> and \<^verbatim>\<open>_generate_overview\<close> have no such test, so for a model that
  holds the system table with one column the columns and the overview each have a record
  of it.
\<close>

theorem system_table_is_in_columns_and_overview:
  "parse_tables system_doc = Inr []
   \<and> parse_columns system_doc =
       Inr [\<lparr>col_table_name = JStr (u ''User_'' @ [29992, 25143, 26435, 38480, 34920]),
             col_source_table = dax_created, col_column_name = JStr (u ''uid''),
             col_source_column = JStr (u ''uid''), col_data_type = JStr []\<rparr>]
   \<and> generate_overview system_doc =
       Inr [\<lparr>ov_table_name = JStr (u ''User_'' @ [29992, 25143, 26435, 38480, 34920]),
             ov_source_table = dax_created, ov_column_count = 1, ov_measure_count = 0,
             ov_partition_count = 0, ov_instance_address = [], ov_database_name = [],
             ov_protocol = []\<rparr>]"
  by (simp add: parse_tables_def table_rows_def system_tables_def parse_columns_def
      column_rows_def column_row_def extract_column_source_from_m_function_def
      generate_overview_def counter_step_def count_step_def overview_row_def protocol_of_def
      dict_set_def dict_lookup_def dict_get_def system_doc_def pass_defs py_defs)

subsection \<open>A model without tables\<close>

lemma tableless_raw_data: "raw_data_of tableless_doc = tableless_doc"
  by (simp add: raw_data_of_def tableless_doc_def field_is_def u_def)

lemma no_model_key_gives_empty_output:
  assumes "locate_model (JDict kv) = None" and "u ''model'' \<notin> set (map fst kv)"
  shows "run_passes repr (raw_data_of (JDict kv)) = Inr empty_output"
  using assms
  by (simp add: run_passes_def raw_data_of_def parse_tables_def parse_columns_def
      parse_measures_def parse_relationships_def generate_overview_def
      resolve_all_measure_references_def model_tables_def rbind_def empty_output_def)

lemma tableless_run_passes: "run_passes repr tableless_doc = Inl (KeyError (u ''tables''))"
  by (simp add: run_passes_def parse_tables_def parse_columns_def parse_measures_def
      parse_relationships_def model_tables_def tableless_doc_def py_defs)

text \<open>
  C8 says that a document that decodes and has no model, or a model without tables, gives
  a success with empty collections. For the model \<^verbatim>\<open>{"relationships": []}\<close> the passes
  over tables, columns and measures return at their guard, but \<^verbatim>\<open>_parse_relationships\<close>
  reads \<^verbatim>\<open>raw_data["model"]["tables"]\<close> without one: the result is the failure with the
  text of \<^verbatim>\<open>KeyError('tables')\<close>. For the document \<^verbatim>\<open>5\<close> the first guard itself raises.
\<close>

theorem tableless_model_fails:
  "parse_file (\<lambda>s. Inr tableless_doc) repr file_content = Failure (StrOf (KeyError (u ''tables'')))
   \<and> parse_file (\<lambda>s. Inr (JInt 5)) repr file_content = Failure (StrOf TypeError)"
  by (simp add: parse_file_def tableless_raw_data tableless_run_passes run_passes_scalar)

subsection \<open>The worked example\<close>

lemma sales_raw_data: "raw_data_of sales_doc = sales_doc"
  by (simp add: raw_data_of_def sales_defs field_is_def u_def)

lemma sales_model_tables: "model_tables sales_doc = Inr (Some (JList [sales_table]))"
  by (simp add: model_tables_def sales_doc_def sales_model_def py_defs)

lemma sales_tables:
  "parse_tables sales_doc =
     Inr [\<lparr>tbl_name = JStr (u ''Sales''), tbl_source_table = dax_created,
           tbl_partition_count = 1\<rparr>]"
  by (simp add: parse_tables_def table_rows_def system_tables_def extract_source_table_def
      sales_defs pass_defs py_defs pat_defs)

lemma sales_columns:
  "parse_columns sales_doc =
     Inr [\<lparr>col_table_name = JStr (u ''Sales''), col_source_table = dax_created,
           col_column_name = JStr (u ''Amt''), col_source_column = JStr (u ''Amt''),
           col_data_type = JStr (u ''Decimal'')\<rparr>]"
  by (simp add: parse_columns_def column_rows_def column_row_def
      extract_column_source_from_m_function_def extract_rename_mappings_from_m_def
      pairs_of_def extract_source_table_def sales_defs pass_defs py_defs pat_defs)

lemma sales_collect:
  "collect_measures [sales_table] =
     Inr [\<lparr>md_name = JStr (u ''Total''), md_expression = total_expr,
           md_format_string = JStr [], md_display_folder = JStr [],
           md_table_name = JStr (u ''Sales'')\<rparr>]"
  by (simp add: collect_measures_def measure_decl_of_def replace_quotes_def total_expr_def
      sales_defs pass_defs py_defs)

lemma sales_lookups:
  "rfold (lookups_step repr sales_doc) [sales_table] ([], [])
   = Inr ([(JStr (u ''Sales''), dax_created)], [(u ''Sales.Amt'', JStr (u ''Amt''))])"
  by (simp add: lookups_step_def table_lookup_step_def columns_lookup_step_def
      column_lookup_step_def dict_set_def py_str_def extract_column_source_from_m_function_def
      extract_rename_mappings_from_m_def pairs_of_def extract_source_table_def
      sales_defs pass_defs py_defs pat_defs)

lemma sales_involved:
  "involved_of [(u ''Total'', total_expr)] total_expr = ([], [u ''Sales''], [u ''Amt''])"
  by (simp add: involved_of_def extract_involved_tables_def extract_involved_columns_def
      bracket_tokens_def total_expr_def py_defs pat_defs)

lemma sales_columns_line:
  "formatted_columns repr [(u ''Sales.Amt'', JStr (u ''Amt''))] total_expr [u ''Sales'']
     [u ''Amt'']
   = [u ''Amt'' @ source_column_label @ u ''Amt)'']"
  by (simp add: formatted_columns_def py_str_def total_expr_def py_defs pat_defs)

lemma sales_tables_line:
  "formatted_tables [(JStr (u ''Sales''), dax_created)] [u ''Sales'']
   = [u ''Sales'' @ source_table_label @ dax_created @ u '')'']"
  by (simp add: formatted_tables_def dict_lookup_def py_defs)

lemma sales_measures:
  "parse_measures repr sales_doc =
     Inr [\<lparr>mi_name = JStr (u ''Total''), mi_expression = total_expr,
           mi_format_string = JStr [], mi_display_folder = JStr [],
           mi_involved_tables = u ''Sales'' @ source_table_label @ dax_created @ u '')'',
           mi_involved_columns = u ''Amt'' @ source_column_label @ u ''Amt)''\<rparr>]"
  by (simp add: parse_measures_def sales_model_tables rbind_def sales_collect sales_lookups
      sales_involved sales_columns_line sales_tables_line measure_row_def
      del: rfold.simps rmap.simps)

lemma sales_relationships: "parse_relationships repr sales_doc = Inr []"
  by (simp add: parse_relationships_def table_lookup_step_def columns_lookup_step_def
      column_lookup_step_def dict_set_def dict_lookup_def py_str_def
      extract_column_source_from_m_function_def extract_rename_mappings_from_m_def
      pairs_of_def extract_source_table_def sales_defs pass_defs py_defs pat_defs)

lemma sales_overview:
  "generate_overview sales_doc =
     Inr [\<lparr>ov_table_name = JStr (u ''Sales''), ov_source_table = dax_created,
           ov_column_count = 1, ov_measure_count = 1, ov_partition_count = 1,
           ov_instance_address = u ''MySql/host:3306'', ov_database_name = u ''salesdb'',
           ov_protocol = u ''MySql''\<rparr>]"
  by (simp add: generate_overview_def counter_step_def count_step_def overview_involved_def
      overview_row_def protocol_of_def extract_involved_tables_def
      extract_connection_info_def dict_set_def dict_lookup_def dict_get_def
      extract_source_table_def total_expr_def sales_defs pass_defs py_defs pat_defs)

lemma sales_references:
  "resolve_all_measure_references
     [\<lparr>mi_name = JStr (u ''Total''), mi_expression = total_expr,
       mi_format_string = JStr [], mi_display_folder = JStr [],
       mi_involved_tables = u ''Sales'' @ source_table_label @ dax_created @ u '')'',
       mi_involved_columns = u ''Amt'' @ source_column_label @ u ''Amt)''\<rparr>]
   = Inr (out_measures sales_output)"
  by (simp add: resolve_all_measure_references_def referenced_measures_of_def
      bracket_tokens_def measure_pattern_def total_expr_def sales_output_def py_defs)

lemma sales_run_passes: "run_passes repr sales_doc = Inr sales_output"
  by (simp add: run_passes_def rbind_def sales_tables sales_columns sales_measures
      sales_relationships sales_overview sales_references)
    (simp add: sales_output_def)

text \<open>
  C7, as the claim states it: for the worked example the table record has the source table
  \<^verbatim>\<open>Sales\<close>. It fails: the expression has neither an item tag nor a \<^verbatim>\<open>FROM\<close> clause, and
  the table record has the default name.
\<close>

theorem worked_example_counterexample:
  "parse_tables (raw_data_of sales_doc) =
     Inr [\<lparr>tbl_name = JStr (u ''Sales''), tbl_source_table = dax_created,
           tbl_partition_count = 1\<rparr>]
   \<and> dax_created \<noteq> u ''Sales''"
  by (simp add: sales_raw_data sales_tables) (simp add: dax_created_def u_def)

text \<open>
  C7, amended: for the worked example \<^verbatim>\<open>parse_file\<close> returns a success with one table
  record whose source table is the default name, one column record whose source column is
  \<^verbatim>\<open>Amt\<close>, one measure record whose involved tables are the one line made of \<^verbatim>\<open>Sales\<close>,
  the source table label and the default name, no relationship, and one overview record
  with the instance address \<^verbatim>\<open>MySql/host:3306\<close>, the database name \<^verbatim>\<open>salesdb\<close> and the
  protocol \<^verbatim>\<open>MySql\<close>.
\<close>

theorem worked_example_result:
  "loads file_content = Inr sales_doc
   \<Longrightarrow> parse_file loads repr file_content = Success sales_output"
  by (simp add: parse_file_def sales_raw_data sales_run_passes)

theorem worked_example_result_witness:
  "parse_file (\<lambda>s. Inr sales_doc) (\<lambda>v. []) [] = Success sales_output"
  using worked_example_result [of "\<lambda>s. Inr sales_doc" "[]" "\<lambda>v. []"] by simp

end
